theory Spec2Isabelle
  imports Main "HOL-Library.Sublist"
begin

section \<open>Python strings and values\<close>

text \<open>
  A Python \<open>str\<close> is represented by the bytes of its UTF-8 encoding, as an Isabelle
  \<open>string\<close>. Concatenation, \<open>endswith\<close> with an ASCII suffix and \<open>in\<close> with an ASCII
  needle commute with that encoding: \<open>s.endswith(t)\<close> is \<open>suffix t s\<close> and \<open>t in s\<close> is
  \<open>sublist t s\<close>.

  \<open>str.lower\<close> is modelled on the ASCII range: \<open>lower\<close> maps \<open>A..Z\<close> to \<open>a..z\<close> and keeps
  every other byte. The program only compares a lower-cased string with ASCII suffixes,
  needles and names; the characters outside ASCII whose lower case holds an ASCII letter
  are U+0130 (an \<open>i\<close> followed by U+0307) and U+212A (a \<open>k\<close>), and none of the compared
  texts holds a \<open>k\<close> or ends with an \<open>i\<close>, so each comparison has the same outcome.
\<close>

definition lower_char :: "char \<Rightarrow> char" where
  "lower_char c =
     (let n = (of_char c :: nat) in if 65 \<le> n \<and> n \<le> 90 then char_of (n + 32) else c)"

definition lower :: "string \<Rightarrow> string" where
  "lower s = map lower_char s"

text \<open>
  The white space of \<open>str.isspace\<close>, which \<open>str.strip()\<close> removes at both ends: the
  characters U+0009 to U+000D, U+001C to U+0020, U+0085, U+00A0, U+1680, U+2000 to
  U+200A, U+2028, U+2029, U+202F, U+205F and U+3000, each as its UTF-8 bytes.
\<close>

definition whitespace :: "string list" where
  "whitespace =
     [
      [CHR 0x09], [CHR 0x0A], [CHR 0x0B], [CHR 0x0C], [CHR 0x0D], [CHR 0x1C],
      [CHR 0x1D], [CHR 0x1E], [CHR 0x1F], [CHR 0x20], [CHR 0xC2, CHR 0x85],
      [CHR 0xC2, CHR 0xA0], [CHR 0xE1, CHR 0x9A, CHR 0x80],
      [CHR 0xE2, CHR 0x80, CHR 0x80], [CHR 0xE2, CHR 0x80, CHR 0x81],
      [CHR 0xE2, CHR 0x80, CHR 0x82], [CHR 0xE2, CHR 0x80, CHR 0x83],
      [CHR 0xE2, CHR 0x80, CHR 0x84], [CHR 0xE2, CHR 0x80, CHR 0x85],
      [CHR 0xE2, CHR 0x80, CHR 0x86], [CHR 0xE2, CHR 0x80, CHR 0x87],
      [CHR 0xE2, CHR 0x80, CHR 0x88], [CHR 0xE2, CHR 0x80, CHR 0x89],
      [CHR 0xE2, CHR 0x80, CHR 0x8A], [CHR 0xE2, CHR 0x80, CHR 0xA8],
      [CHR 0xE2, CHR 0x80, CHR 0xA9], [CHR 0xE2, CHR 0x80, CHR 0xAF],
      [CHR 0xE2, CHR 0x81, CHR 0x9F], [CHR 0xE3, CHR 0x80, CHR 0x80]
     ]"

text \<open>
  Removing at the front of \<open>s\<close> every occurrence of one of the byte sequences \<open>ws\<close>.
  In UTF-8 no character's bytes begin or end another character's, so a white space
  sequence at the front or at the end of a text is a white space character there.
\<close>

function strip_prefixes :: "string list \<Rightarrow> string \<Rightarrow> string" where
  "strip_prefixes ws s =
     (case find (\<lambda>w. w \<noteq> [] \<and> prefix w s) ws of
        Some w \<Rightarrow> strip_prefixes ws (drop (length w) s)
      | None \<Rightarrow> s)"
  by pat_completeness auto
termination
proof (relation "measure (\<lambda>(ws, s). length s)")
  show "wf (measure (\<lambda>(ws, s). length s))"
    by simp
next
  fix ws :: "string list" and s w :: string
  assume "find (\<lambda>w. w \<noteq> [] \<and> prefix w s) ws = Some w"
  then have "w \<noteq> []" and "prefix w s"
    by (auto simp: find_Some_iff)
  then have "length w \<le> length s" and "0 < length w"
    by (simp_all add: prefix_length_le)
  then have "length s - length w < length s"
    by arith
  then show "((ws, drop (length w) s), (ws, s)) \<in> measure (\<lambda>(ws, s). length s)"
    by simp
qed

declare strip_prefixes.simps [simp del]

definition lstrip :: "string \<Rightarrow> string" where
  "lstrip s = strip_prefixes whitespace s"

definition rstrip :: "string \<Rightarrow> string" where
  "rstrip s = rev (strip_prefixes (map rev whitespace) (rev s))"

definition strip :: "string \<Rightarrow> string" where
  "strip s = rstrip (lstrip s)"

text \<open>\<open>sep.join(parts)\<close>.\<close>

fun join :: "string \<Rightarrow> string list \<Rightarrow> string" where
  "join sep [] = []"
| "join sep [x] = x"
| "join sep (x # y # ys) = x @ sep @ join sep (y # ys)"

text \<open>\<open>str(n)\<close> for a non-negative integer: its decimal digits.\<close>

fun str_of_nat :: "nat \<Rightarrow> string" where
  "str_of_nat n =
     (if n < 10 then [char_of (48 + n)]
      else str_of_nat (n div 10) @ [char_of (48 + n mod 10)])"

declare str_of_nat.simps [simp del]

text \<open>
  A slice \<open>xs[:n]\<close>, which is what \<open>DataFrame.head(n)\<close> and \<open>iloc[:, :n]\<close> take: the
  first \<open>n\<close> elements, and for a negative \<open>n\<close> all but the last \<open>-n\<close>.
\<close>

definition slice_to :: "int \<Rightarrow> 'a list \<Rightarrow> 'a list" where
  "slice_to n xs = (if 0 \<le> n then take (nat n) xs else take (length xs - nat (- n)) xs)"

text \<open>
  Exceptions: the failures of the library calls, which are instances of \<open>Exception\<close>.
  Every extractor catches \<open>Exception\<close>, and the spreadsheet extractor catches
  \<open>ImportError\<close> before it; the argument is \<open>str(e)\<close>.
\<close>

datatype exn = ImportError string | Exception string

fun str_exn :: "exn \<Rightarrow> string" where
  "str_exn (ImportError m) = m"
| "str_exn (Exception m) = m"

text \<open>
  What the program does besides returning: the messages it shows through Streamlit
  and the calls it makes to the generation service, in the order they happen.
\<close>

datatype event =
    St_error string
  | St_warning string
  | St_exception exn
  | St_info string
  | St_markdown string
  | Genai_Client string
  | Generate_content string string

section \<open>Data model\<close>

text \<open>
  An uploaded file: \<open>file.name\<close>, \<open>file.type\<close> (here \<open>ftype\<close>), the bytes and the stream
  position. Name and type are strings, as Streamlit gives them, so \<open>file.name or ""\<close>
  is \<open>file.name\<close>. \<open>file.seek(0)\<close> resets the position and \<open>file.read()\<close> returns the
  bytes from the position on. Every extractor seeks to 0 before it reads, so the
  position a read leaves behind is never observed and is not returned.
\<close>

record uploaded_file =
  name :: string
  ftype :: string
  content :: string
  pos :: nat

definition seek :: "nat \<Rightarrow> uploaded_file \<Rightarrow> uploaded_file" where
  "seek n file = file\<lparr>pos := n\<rparr>"

definition read :: "uploaded_file \<Rightarrow> string" where
  "read file = drop (pos file) (content file)"

text \<open>
  A \<open>DataFrame\<close> read with \<open>dtype=str\<close>: the column labels and the rows of cells
  (\<open>None\<close> is a missing value). \<open>df.shape\<close> is \<open>(length (rows df), length (columns df))\<close>.
\<close>

record dataframe =
  columns :: "string list"
  rows :: "string option list list"

definition wf_df :: "dataframe \<Rightarrow> bool" where
  "wf_df df = list_all (\<lambda>r. length r = length (columns df)) (rows df)"

definition head :: "dataframe \<Rightarrow> int \<Rightarrow> dataframe" where
  "head df n = df\<lparr>rows := slice_to n (rows df)\<rparr>"

definition iloc_cols :: "dataframe \<Rightarrow> int \<Rightarrow> dataframe" where
  "iloc_cols df n = df\<lparr>columns := slice_to n (columns df), rows := map (slice_to n) (rows df)\<rparr>"

text \<open>
  A slide shape of python-pptx: it may have a text frame (\<open>has_text_frame\<close>, with its
  \<open>text\<close>), a table (\<open>has_table\<close>, with the text of the cells of each row) and child
  shapes (a group shape has the attribute \<open>shapes\<close>).
\<close>

datatype shape =
  Shape (text_frame: "string option") (table: "string list list option")
        (shapes: "shape list option")

text \<open>
  A slide: its shapes and its notes. \<open>notes_slide = None\<close> when \<open>has_notes_slide\<close> is
  false, \<open>Some None\<close> when the notes slide has no \<open>notes_text_frame\<close>, and
  \<open>Some (Some t)\<close> when the frame's text is \<open>t\<close>.
\<close>

record slide =
  slide_shapes :: "shape list"
  notes_slide :: "string option option"

text \<open>
  The response of \<open>generate_content\<close>: the attributes \<open>text\<close> (here \<open>resp_text\<close>) and
  \<open>output_text\<close>,
  \<open>None\<close> when the attribute is absent or \<open>None\<close>.
\<close>

record response =
  resp_text :: "string option"
  output_text :: "string option"

text \<open>
  The libraries the program calls, as parameters. A call that can raise returns
  \<open>Inl\<close> of the exception.
  \<^item> \<open>PdfReader\<close>: \<open>PdfReader(file).pages\<close>, each page as the result of its
    \<open>extract_text()\<close>;
  \<^item> \<open>Document\<close>: the \<open>text\<close> of the paragraphs of \<open>Document(io.BytesIO(data))\<close>;
  \<^item> \<open>read_csv\<close>: \<open>pd.read_csv(file, dtype=str)\<close>; \<open>to_csv\<close>: \<open>df.to_csv(index=False)\<close>;
  \<^item> \<open>ExcelFile\<close>: \<open>pd.ExcelFile(file, engine=...)\<close>, as the sheet names in workbook
    order, each with the result of \<open>xls.parse(sheet_name=..., dtype=str)\<close>;
  \<^item> \<open>Presentation\<close>: the slides of \<open>Presentation(io.BytesIO(data))\<close>;
  \<^item> \<open>Path_suffix\<close>: \<open>Path(name).suffix\<close>;
  \<^item> \<open>substitute\<close>: \<open>prompt_tmpl.substitute(sar_item=..., knowledge_base=...,
    context_data=...)\<close> on the fixed prompt template, whose three placeholders are
    all given, so it does not raise;
  \<^item> \<open>genai_Client\<close>: \<open>genai.Client(api_key=...)\<close>;
  \<^item> \<open>generate_content\<close>: \<open>client.models.generate_content(model=..., contents=...)\<close>,
    from the client's API key, the model name and the prompt.
\<close>

record runtime =
  PdfReader :: "uploaded_file \<Rightarrow> exn + (exn + string) list"
  Document :: "string \<Rightarrow> exn + string list"
  read_csv :: "uploaded_file \<Rightarrow> exn + dataframe"
  to_csv :: "dataframe \<Rightarrow> string"
  ExcelFile :: "uploaded_file \<Rightarrow> string option \<Rightarrow> exn + (string \<times> (exn + dataframe)) list"
  Presentation :: "string \<Rightarrow> exn + slide list"
  Path_suffix :: "string \<Rightarrow> string"
  substitute :: "string \<Rightarrow> string \<Rightarrow> string \<Rightarrow> string"
  genai_Client :: "string \<Rightarrow> exn + unit"
  generate_content :: "string \<Rightarrow> string \<Rightarrow> string \<Rightarrow> exn + response"

section \<open>Configuration\<close>

definition MAX_ROWS :: int where
  "MAX_ROWS = 300"

definition MAX_COLS :: int where
  "MAX_COLS = 50"

section \<open>Helpers\<close>

text \<open>
  \<open>_limit_df\<close>. \<open>df.copy()\<close> is the same value in a new object; the object identities
  are modelled in the section on the object store below.
\<close>

definition limit_df :: "dataframe \<Rightarrow> int \<Rightarrow> int \<Rightarrow> dataframe" where
  "limit_df df max_rows max_cols =
     (let df1 = df;
          df2 = (if int (length (rows df1)) > max_rows then head df1 max_rows else df1);
          df3 = (if int (length (columns df2)) > max_cols then iloc_cols df2 max_cols else df2)
      in df3)"

section \<open>Format extractors\<close>

text \<open>
  Each extractor is a \<open>try\<close> block and its \<open>except\<close> clauses. The \<open>try\<close> block is the
  definition with the suffix \<open>_try\<close>: it returns \<open>Inl e\<close> when a statement in it raises
  \<open>e\<close>. The extractor returns what its caller sees, \<open>Inr\<close> of the returned text or
  \<open>Inl\<close> of an exception that leaves it, and the messages it shows.
\<close>

subsection \<open>PDF\<close>

fun pdf_pages_loop :: "(exn + string) list \<Rightarrow> string \<Rightarrow> exn + string" where
  "pdf_pages_loop [] text = Inr text"
| "pdf_pages_loop (page # pages) text =
     (case page of
        Inl e \<Rightarrow> Inl e
      | Inr page_text \<Rightarrow>
          pdf_pages_loop pages (if page_text \<noteq> [] then text @ page_text @ ''\<newline>'' else text))"

definition extract_text_from_pdf_try :: "runtime \<Rightarrow> uploaded_file \<Rightarrow> exn + string" where
  "extract_text_from_pdf_try L file =
     (case PdfReader L (seek 0 file) of
        Inl e \<Rightarrow> Inl e
      | Inr pages \<Rightarrow> pdf_pages_loop pages [])"

definition extract_text_from_pdf :: "runtime \<Rightarrow> uploaded_file \<Rightarrow> (exn + string) \<times> event list" where
  "extract_text_from_pdf L file =
     (case extract_text_from_pdf_try L file of
        Inr text \<Rightarrow> (Inr text, [])
      | Inl e \<Rightarrow>
          (Inr [], [St_error (''Error reading PDF file '' @ name file @ '': '' @ str_exn e)]))"

subsection \<open>DOCX\<close>

definition extract_text_from_docx_try :: "runtime \<Rightarrow> uploaded_file \<Rightarrow> exn + string" where
  "extract_text_from_docx_try L file =
     (let data = read (seek 0 file) in
      case Document L data of
        Inl e \<Rightarrow> Inl e
      | Inr paragraphs \<Rightarrow> Inr (join ''\<newline>'' paragraphs))"

definition extract_text_from_docx :: "runtime \<Rightarrow> uploaded_file \<Rightarrow> (exn + string) \<times> event list" where
  "extract_text_from_docx L file =
     (case extract_text_from_docx_try L file of
        Inr text \<Rightarrow> (Inr text, [])
      | Inl e \<Rightarrow>
          (Inr [], [St_error (''Error reading DOCX file '' @ name file @ '': '' @ str_exn e)]))"

subsection \<open>CSV\<close>

definition extract_text_from_csv_try :: "runtime \<Rightarrow> uploaded_file \<Rightarrow> exn + string" where
  "extract_text_from_csv_try L file =
     (case read_csv L (seek 0 file) of
        Inl e \<Rightarrow> Inl e
      | Inr df \<Rightarrow> Inr (to_csv L (limit_df df MAX_ROWS MAX_COLS)))"

definition extract_text_from_csv :: "runtime \<Rightarrow> uploaded_file \<Rightarrow> (exn + string) \<times> event list" where
  "extract_text_from_csv L file =
     (case extract_text_from_csv_try L file of
        Inr text \<Rightarrow> (Inr text, [])
      | Inl e \<Rightarrow>
          (Inr [], [St_error (''Error reading CSV file '' @ name file @ '': '' @ str_exn e)]))"

subsection \<open>Excel\<close>

text \<open>The message of the \<open>ImportError\<close> clause, a Thai text, as its UTF-8 bytes.\<close>

definition EXCEL_IMPORT_ERROR_MESSAGE :: string where
  "EXCEL_IMPORT_ERROR_MESSAGE =
     [CHR 0xE0, CHR 0xB8, CHR 0x82, CHR 0xE0, CHR 0xB8, CHR 0xB2, CHR 0xE0, CHR 0xB8,
     CHR 0x94, CHR 0xE0, CHR 0xB9, CHR 0x84, CHR 0xE0, CHR 0xB8, CHR 0xA5, CHR 0xE0,
     CHR 0xB8, CHR 0x9A, CHR 0xE0, CHR 0xB8, CHR 0xA3, CHR 0xE0, CHR 0xB8, CHR 0xB2,
     CHR 0xE0, CHR 0xB8, CHR 0xA3, CHR 0xE0, CHR 0xB8, CHR 0xB5, CHR 0xE0, CHR 0xB8,
     CHR 0xAD, CHR 0xE0, CHR 0xB9, CHR 0x88, CHR 0xE0, CHR 0xB8, CHR 0xB2, CHR 0xE0,
     CHR 0xB8, CHR 0x99] @ '' Excel:\<newline>'' @ [CHR 0xE2, CHR 0x80, CHR 0xA2] @
     '' .xlsx/.xlsm '' @ [CHR 0xE0, CHR 0xB8, CHR 0x95, CHR 0xE0, CHR 0xB9, CHR 0x89,
     CHR 0xE0, CHR 0xB8, CHR 0xAD, CHR 0xE0, CHR 0xB8, CHR 0x87, CHR 0xE0, CHR 0xB8,
     CHR 0xA1, CHR 0xE0, CHR 0xB8, CHR 0xB5] @ '' openpyxl\<newline>'' @ [CHR 0xE2,
     CHR 0x80, CHR 0xA2] @ '' .xls '' @ [CHR 0xE0, CHR 0xB8, CHR 0x95, CHR 0xE0, CHR 0xB9,
     CHR 0x89, CHR 0xE0, CHR 0xB8, CHR 0xAD, CHR 0xE0, CHR 0xB8, CHR 0x87, CHR 0xE0,
     CHR 0xB8, CHR 0xA1, CHR 0xE0, CHR 0xB8, CHR 0xB5] @ '' xlrd''"

fun excel_sheets_loop ::
  "runtime \<Rightarrow> (string \<times> (exn + dataframe)) list \<Rightarrow> string list \<Rightarrow> exn + string list" where
  "excel_sheets_loop L [] parts = Inr parts"
| "excel_sheets_loop L ((sheet_name, parsed) # sheets) parts =
     (case parsed of
        Inl e \<Rightarrow> Inl e
      | Inr df \<Rightarrow>
          (let df = limit_df df MAX_ROWS MAX_COLS;
               csv_text = to_csv L df
           in excel_sheets_loop L sheets
                (parts @ [''[Sheet: '' @ sheet_name @ '']\<newline>'' @ csv_text @ ''\<newline>''])))"

definition extract_text_from_excel_try :: "runtime \<Rightarrow> uploaded_file \<Rightarrow> exn + string" where
  "extract_text_from_excel_try L file =
     (let ext = lower (Path_suffix L (name file));
          engine = (if ext \<in> set [''.xlsx'', ''.xlsm''] then Some ''openpyxl''
                    else if ext = ''.xls'' then Some ''xlrd''
                    else None)
      in case ExcelFile L (seek 0 file) engine of
           Inl e \<Rightarrow> Inl e
         | Inr xls \<Rightarrow>
             (case excel_sheets_loop L xls [] of
                Inl e \<Rightarrow> Inl e
              | Inr parts \<Rightarrow> Inr (join ''\<newline>'' parts)))"

definition extract_text_from_excel :: "runtime \<Rightarrow> uploaded_file \<Rightarrow> (exn + string) \<times> event list" where
  "extract_text_from_excel L file =
     (case extract_text_from_excel_try L file of
        Inr text \<Rightarrow> (Inr text, [])
      | Inl (ImportError m) \<Rightarrow>
          (Inr [], [St_error EXCEL_IMPORT_ERROR_MESSAGE, St_exception (ImportError m)])
      | Inl e \<Rightarrow>
          (Inr [], [St_error (''Error reading Excel file '' @ name file @ '': '' @ str_exn e)]))"

text \<open>
  The engine that \<open>extract_text_from_excel\<close> picks from the suffix of the file name
  and passes to \<open>pd.ExcelFile\<close>.
\<close>

definition excel_engine :: "runtime \<Rightarrow> uploaded_file \<Rightarrow> string option" where
  "excel_engine L file =
     (let ext = lower (Path_suffix L (name file))
      in if ext \<in> set [''.xlsx'', ''.xlsm''] then Some ''openpyxl''
         else if ext = ''.xls'' then Some ''xlrd''
         else None)"

subsection \<open>PPTX\<close>

definition extract_text_from_table :: "string list list \<Rightarrow> string" where
  "extract_text_from_table tbl = join ''\<newline>'' (map (\<lambda>r. join '','' (map strip r)) tbl)"

fun walk_shapes :: "shape list \<Rightarrow> string list \<Rightarrow> string list" where
  "walk_shapes [] out_parts = out_parts"
| "walk_shapes (Shape tf tb ch # rest) out_parts =
     (let out1 = (case tf of
                    Some txt \<Rightarrow> if strip txt \<noteq> [] then out_parts @ [strip txt] else out_parts
                  | None \<Rightarrow> out_parts);
          out2 = (case tb of
                    Some tbl \<Rightarrow> out1 @ [extract_text_from_table tbl]
                  | None \<Rightarrow> out1);
          out3 = (case ch of
                    Some children \<Rightarrow> walk_shapes children out2
                  | None \<Rightarrow> out2)
      in walk_shapes rest out3)"

fun pptx_slides_loop :: "slide list \<Rightarrow> nat \<Rightarrow> string list \<Rightarrow> string list" where
  "pptx_slides_loop [] i parts = parts"
| "pptx_slides_loop (sl # slides) i parts =
     (let slide_parts = [''[Slide '' @ str_of_nat i @ '']''];
          slide_parts = walk_shapes (slide_shapes sl) slide_parts;
          slide_parts =
            (case notes_slide sl of
               Some (Some note) \<Rightarrow>
                 if strip note \<noteq> [] then slide_parts @ [''[Notes]\<newline>'' @ strip note]
                 else slide_parts
             | _ \<Rightarrow> slide_parts)
      in pptx_slides_loop slides (i + 1) (parts @ [join ''\<newline>'' slide_parts]))"

definition extract_text_from_pptx_try :: "runtime \<Rightarrow> uploaded_file \<Rightarrow> exn + string" where
  "extract_text_from_pptx_try L file =
     (let data = read (seek 0 file) in
      case Presentation L data of
        Inl e \<Rightarrow> Inl e
      | Inr slides \<Rightarrow> Inr (join ''\<newline>\<newline>'' (pptx_slides_loop slides 1 [])))"

definition extract_text_from_pptx :: "runtime \<Rightarrow> uploaded_file \<Rightarrow> (exn + string) \<times> event list" where
  "extract_text_from_pptx L file =
     (case extract_text_from_pptx_try L file of
        Inr text \<Rightarrow> (Inr text, [])
      | Inl e \<Rightarrow>
          (Inr [], [St_error (''Error reading PPTX file '' @ name file @ '': '' @ str_exn e)]))"

section \<open>Aggregator\<close>

text \<open>
  The body of the \<open>try\<close> statement inside the loop of \<open>get_all_input_text\<close>: the chain
  of \<open>if\<close>/\<open>elif\<close> on the lower-cased name and media type, with the result of the
  extractor that was called.
\<close>

definition extract_by_type :: "runtime \<Rightarrow> uploaded_file \<Rightarrow> (exn + string) \<times> event list" where
  "extract_by_type L file =
     (let name = lower (name file);
          mime = lower (ftype file)
      in if suffix ''.pdf'' name \<or> sublist ''pdf'' mime then
           extract_text_from_pdf L file
         else if suffix ''.docx'' name \<or> sublist ''wordprocessingml'' mime then
           extract_text_from_docx L file
         else if (suffix ''.xlsx'' name \<or> suffix ''.xlsm'' name)
                 \<or> sublist ''officedocument.spreadsheetml'' mime then
           extract_text_from_excel L file
         else if suffix ''.xls'' name \<or> mime = ''application/vnd.ms-excel'' then
           extract_text_from_excel L file
         else if suffix ''.csv'' name \<or> sublist ''text/csv'' mime then
           extract_text_from_csv L file
         else if suffix ''.pptx'' name
                 \<or> sublist ''officedocument.presentationml.presentation'' mime then
           extract_text_from_pptx L file
         else
           (Inr [], [St_warning (''Unsupported file type: '' @ uploaded_file.name file @ ''. Skipping.'')]))"

text \<open>
  One iteration of the loop over the uploaded files: the start marker, the extracted
  text (nothing when the \<open>try\<close> statement caught an exception) and the end marker are
  appended to \<open>full_text\<close>.
\<close>

definition file_step :: "runtime \<Rightarrow> uploaded_file \<Rightarrow> string \<Rightarrow> string \<times> event list" where
  "file_step L file full_text =
     (let full_text = full_text @ ''--- START OF FILE: '' @ name file @ '' ---\<newline>\<newline>'';
          (r, evs) = extract_by_type L file;
          (full_text, evs) =
            (case r of
               Inr t \<Rightarrow> (full_text @ t, evs)
             | Inl e \<Rightarrow>
                 (full_text,
                  evs @ [St_error (''Error reading file '' @ name file @ '': '' @ str_exn e)]))
      in (full_text @ ''\<newline>\<newline>--- END OF FILE: '' @ name file @ '' ---\<newline>\<newline>'', evs))"

fun files_loop :: "runtime \<Rightarrow> uploaded_file list \<Rightarrow> string \<Rightarrow> string \<times> event list" where
  "files_loop L [] full_text = (full_text, [])"
| "files_loop L (file # files) full_text =
     (let (full_text, evs1) = file_step L file full_text;
          (full_text, evs2) = files_loop L files full_text
      in (full_text, evs1 @ evs2))"

definition get_all_input_text ::
  "runtime \<Rightarrow> uploaded_file list \<Rightarrow> string \<Rightarrow> (string \<times> bool) \<times> event list" where
  "get_all_input_text L uploaded_files additional_context =
     (let full_text = [] in
      if uploaded_files = [] \<and> additional_context = [] then ((full_text, False), [])
      else
        (let (full_text, evs) =
               (if uploaded_files \<noteq> [] then files_loop L uploaded_files full_text
                else (full_text, []));
             full_text =
               (if additional_context \<noteq> [] then
                  full_text @ ''--- START OF ADDITIONAL USER NOTES ---\<newline>\<newline>''
                    @ additional_context
                    @ ''\<newline>\<newline>--- END OF ADDITIONAL USER NOTES ---\<newline>\<newline>''
                else full_text)
         in ((full_text, True), evs)))"

section \<open>Generation client\<close>

definition KNOWLEDGE_BASE :: string where
  "KNOWLEDGE_BASE =
     ''\<newline>- HA Standard 5th Edition: ...\<newline>- SPA Manuals (Part I, II, I'' @
     ''II): ...\<newline>- 3P Framework (Purpose-Process-Performance): ...\<newline>-'' @
     '' SAR Structure: ...\<newline>''"

text \<open>The second message of the \<open>except\<close> clause, a Thai text, as its UTF-8 bytes.\<close>

definition GEMINI_HINT_MESSAGE :: string where
  "GEMINI_HINT_MESSAGE =
     [CHR 0xE0, CHR 0xB9, CHR 0x80, CHR 0xE0, CHR 0xB8, CHR 0x84, CHR 0xE0, CHR 0xB8,
     CHR 0xA5, CHR 0xE0, CHR 0xB9, CHR 0x87, CHR 0xE0, CHR 0xB8, CHR 0x94, CHR 0xE0,
     CHR 0xB8, CHR 0xA5, CHR 0xE0, CHR 0xB8, CHR 0xB1, CHR 0xE0, CHR 0xB8, CHR 0x9A] @
     '': '' @ [CHR 0xE0, CHR 0xB8, CHR 0x95, CHR 0xE0, CHR 0xB8, CHR 0xA3, CHR 0xE0,
     CHR 0xB8, CHR 0xA7, CHR 0xE0, CHR 0xB8, CHR 0x88, CHR 0xE0, CHR 0xB8, CHR 0xAA,
     CHR 0xE0, CHR 0xB8, CHR 0xAD, CHR 0xE0, CHR 0xB8, CHR 0x9A] @ '' API Key/'' @
     [CHR 0xE0, CHR 0xB8, CHR 0xAA, CHR 0xE0, CHR 0xB8, CHR 0xB4, CHR 0xE0, CHR 0xB8,
     CHR 0x97, CHR 0xE0, CHR 0xB8, CHR 0x98, CHR 0xE0, CHR 0xB8, CHR 0xB4, CHR 0xE0,
     CHR 0xB9, CHR 0x8C] @ '' '' @ [CHR 0xE0, CHR 0xB9, CHR 0x81, CHR 0xE0, CHR 0xB8,
     CHR 0xA5, CHR 0xE0, CHR 0xB8, CHR 0xB0, CHR 0xE0, CHR 0xB8, CHR 0x8A, CHR 0xE0,
     CHR 0xB8, CHR 0xB7, CHR 0xE0, CHR 0xB9, CHR 0x88, CHR 0xE0, CHR 0xB8, CHR 0xAD,
     CHR 0xE0, CHR 0xB9, CHR 0x82, CHR 0xE0, CHR 0xB8, CHR 0xA1, CHR 0xE0, CHR 0xB9,
     CHR 0x80, CHR 0xE0, CHR 0xB8, CHR 0x94, CHR 0xE0, CHR 0xB8, CHR 0xA5, CHR 0xE0,
     CHR 0xB8, CHR 0xA7, CHR 0xE0, CHR 0xB9, CHR 0x88, CHR 0xE0, CHR 0xB8, CHR 0xB2,
     CHR 0xE0, CHR 0xB8, CHR 0xA3, CHR 0xE0, CHR 0xB8, CHR 0xAD, CHR 0xE0, CHR 0xB8,
     CHR 0x87, CHR 0xE0, CHR 0xB8, CHR 0xA3, CHR 0xE0, CHR 0xB8, CHR 0xB1, CHR 0xE0,
     CHR 0xB8, CHR 0x9A] @ '' generateContent''"

text \<open>\<open>a or b\<close> on two optional strings: \<open>a\<close> when it is a non-empty string, else \<open>b\<close>.\<close>

definition or_else :: "string option \<Rightarrow> string option \<Rightarrow> string option" where
  "or_else a b = (case a of Some (c # cs) \<Rightarrow> a | _ \<Rightarrow> b)"

definition generate_sar_section_try ::
  "runtime \<Rightarrow> string \<Rightarrow> string \<Rightarrow> string \<Rightarrow> (exn + string option) \<times> event list" where
  "generate_sar_section_try L api_key sar_item context_data =
     (case genai_Client L api_key of
        Inl e \<Rightarrow> (Inl e, [Genai_Client api_key])
      | Inr client \<Rightarrow>
          (let prompt = substitute L sar_item KNOWLEDGE_BASE context_data in
           case generate_content L api_key ''gemini-2.5-flash'' prompt of
             Inl e \<Rightarrow>
               (Inl e, [Genai_Client api_key, Generate_content ''gemini-2.5-flash'' prompt])
           | Inr resp \<Rightarrow>
               (Inr (or_else (resp_text resp) (output_text resp)),
                [Genai_Client api_key, Generate_content ''gemini-2.5-flash'' prompt])))"

definition generate_sar_section ::
  "runtime \<Rightarrow> string \<Rightarrow> string \<Rightarrow> string \<Rightarrow> string option \<times> event list" where
  "generate_sar_section L api_key sar_item context_data =
     (case generate_sar_section_try L api_key sar_item context_data of
        (Inr r, evs) \<Rightarrow> (r, evs)
      | (Inl e, evs) \<Rightarrow>
          (None,
           evs @ [St_error (''An error occurred while calling the Gemini API: '' @ str_exn e),
                  St_error GEMINI_HINT_MESSAGE]))"

section \<open>The handler of the generate button\<close>

text \<open>The messages of the handler, Thai texts, as their UTF-8 bytes.\<close>

definition SELECT_TOPIC_MESSAGE :: string where
  "SELECT_TOPIC_MESSAGE =
     [CHR 0xE0, CHR 0xB8, CHR 0x81, CHR 0xE0, CHR 0xB8, CHR 0xA3, CHR 0xE0, CHR 0xB8,
     CHR 0xB8, CHR 0xE0, CHR 0xB8, CHR 0x93, CHR 0xE0, CHR 0xB8, CHR 0xB2, CHR 0xE0,
     CHR 0xB9, CHR 0x80, CHR 0xE0, CHR 0xB8, CHR 0xA5, CHR 0xE0, CHR 0xB8, CHR 0xB7,
     CHR 0xE0, CHR 0xB8, CHR 0xAD, CHR 0xE0, CHR 0xB8, CHR 0x81, CHR 0xE0, CHR 0xB8,
     CHR 0xAB, CHR 0xE0, CHR 0xB8, CHR 0xB1, CHR 0xE0, CHR 0xB8, CHR 0xA7, CHR 0xE0,
     CHR 0xB8, CHR 0x82, CHR 0xE0, CHR 0xB9, CHR 0x89, CHR 0xE0, CHR 0xB8, CHR 0xAD] @
     '' SAR '' @ [CHR 0xE0, CHR 0xB8, CHR 0x97, CHR 0xE0, CHR 0xB8, CHR 0xB5, CHR 0xE0,
     CHR 0xB9, CHR 0x88, CHR 0xE0, CHR 0xB8, CHR 0x95, CHR 0xE0, CHR 0xB9, CHR 0x89,
     CHR 0xE0, CHR 0xB8, CHR 0xAD, CHR 0xE0, CHR 0xB8, CHR 0x87, CHR 0xE0, CHR 0xB8,
     CHR 0x81, CHR 0xE0, CHR 0xB8, CHR 0xB2, CHR 0xE0, CHR 0xB8, CHR 0xA3, CHR 0xE0,
     CHR 0xB8, CHR 0x97, CHR 0xE0, CHR 0xB8, CHR 0xB3]"

definition NO_INPUT_MESSAGE :: string where
  "NO_INPUT_MESSAGE =
     [CHR 0xE0, CHR 0xB8, CHR 0x81, CHR 0xE0, CHR 0xB8, CHR 0xA3, CHR 0xE0, CHR 0xB8,
     CHR 0xB8, CHR 0xE0, CHR 0xB8, CHR 0x93, CHR 0xE0, CHR 0xB8, CHR 0xB2, CHR 0xE0,
     CHR 0xB8, CHR 0xAD, CHR 0xE0, CHR 0xB8, CHR 0xB1, CHR 0xE0, CHR 0xB8, CHR 0x9B,
     CHR 0xE0, CHR 0xB9, CHR 0x82, CHR 0xE0, CHR 0xB8, CHR 0xAB, CHR 0xE0, CHR 0xB8,
     CHR 0xA5, CHR 0xE0, CHR 0xB8, CHR 0x94, CHR 0xE0, CHR 0xB9, CHR 0x84, CHR 0xE0,
     CHR 0xB8, CHR 0x9F, CHR 0xE0, CHR 0xB8, CHR 0xA5, CHR 0xE0, CHR 0xB9, CHR 0x8C,
     CHR 0xE0, CHR 0xB8, CHR 0xAD, CHR 0xE0, CHR 0xB8, CHR 0xA2, CHR 0xE0, CHR 0xB9,
     CHR 0x88, CHR 0xE0, CHR 0xB8, CHR 0xB2, CHR 0xE0, CHR 0xB8, CHR 0x87, CHR 0xE0,
     CHR 0xB8, CHR 0x99, CHR 0xE0, CHR 0xB9, CHR 0x89, CHR 0xE0, CHR 0xB8, CHR 0xAD,
     CHR 0xE0, CHR 0xB8, CHR 0xA2] @ '' 1 '' @ [CHR 0xE0, CHR 0xB9, CHR 0x84, CHR 0xE0,
     CHR 0xB8, CHR 0x9F, CHR 0xE0, CHR 0xB8, CHR 0xA5, CHR 0xE0, CHR 0xB9, CHR 0x8C] @ '' ''
     @ [CHR 0xE0, CHR 0xB8, CHR 0xAB, CHR 0xE0, CHR 0xB8, CHR 0xA3, CHR 0xE0, CHR 0xB8,
     CHR 0xB7, CHR 0xE0, CHR 0xB8, CHR 0xAD, CHR 0xE0, CHR 0xB9, CHR 0x83, CHR 0xE0,
     CHR 0xB8, CHR 0xAA, CHR 0xE0, CHR 0xB9, CHR 0x88, CHR 0xE0, CHR 0xB8, CHR 0x82,
     CHR 0xE0, CHR 0xB9, CHR 0x89, CHR 0xE0, CHR 0xB8, CHR 0xAD, CHR 0xE0, CHR 0xB8,
     CHR 0xA1, CHR 0xE0, CHR 0xB8, CHR 0xB9, CHR 0xE0, CHR 0xB8, CHR 0xA5, CHR 0xE0,
     CHR 0xB9, CHR 0x80, CHR 0xE0, CHR 0xB8, CHR 0x9E, CHR 0xE0, CHR 0xB8, CHR 0xB4,
     CHR 0xE0, CHR 0xB9, CHR 0x88, CHR 0xE0, CHR 0xB8, CHR 0xA1, CHR 0xE0, CHR 0xB9,
     CHR 0x80, CHR 0xE0, CHR 0xB8, CHR 0x95, CHR 0xE0, CHR 0xB8, CHR 0xB4, CHR 0xE0,
     CHR 0xB8, CHR 0xA1]"

definition NO_REPORT_MESSAGE :: string where
  "NO_REPORT_MESSAGE =
     [CHR 0xE0, CHR 0xB9, CHR 0x84, CHR 0xE0, CHR 0xB8, CHR 0xA1, CHR 0xE0, CHR 0xB9,
     CHR 0x88, CHR 0xE0, CHR 0xB8, CHR 0xAA, CHR 0xE0, CHR 0xB8, CHR 0xB2, CHR 0xE0,
     CHR 0xB8, CHR 0xA1, CHR 0xE0, CHR 0xB8, CHR 0xB2, CHR 0xE0, CHR 0xB8, CHR 0xA3,
     CHR 0xE0, CHR 0xB8, CHR 0x96, CHR 0xE0, CHR 0xB8, CHR 0xAA, CHR 0xE0, CHR 0xB8,
     CHR 0xA3, CHR 0xE0, CHR 0xB9, CHR 0x89, CHR 0xE0, CHR 0xB8, CHR 0xB2, CHR 0xE0,
     CHR 0xB8, CHR 0x87, CHR 0xE0, CHR 0xB8, CHR 0xA3, CHR 0xE0, CHR 0xB8, CHR 0xB2,
     CHR 0xE0, CHR 0xB8, CHR 0xA2, CHR 0xE0, CHR 0xB8, CHR 0x87, CHR 0xE0, CHR 0xB8,
     CHR 0xB2, CHR 0xE0, CHR 0xB8, CHR 0x99, CHR 0xE0, CHR 0xB9, CHR 0x84, CHR 0xE0,
     CHR 0xB8, CHR 0x94, CHR 0xE0, CHR 0xB9, CHR 0x89] @ '' '' @ [CHR 0xE0, CHR 0xB8,
     CHR 0x81, CHR 0xE0, CHR 0xB8, CHR 0xA3, CHR 0xE0, CHR 0xB8, CHR 0xB8, CHR 0xE0,
     CHR 0xB8, CHR 0x93, CHR 0xE0, CHR 0xB8, CHR 0xB2, CHR 0xE0, CHR 0xB8, CHR 0x95,
     CHR 0xE0, CHR 0xB8, CHR 0xA3, CHR 0xE0, CHR 0xB8, CHR 0xA7, CHR 0xE0, CHR 0xB8,
     CHR 0x88, CHR 0xE0, CHR 0xB8, CHR 0xAA, CHR 0xE0, CHR 0xB8, CHR 0xAD, CHR 0xE0,
     CHR 0xB8, CHR 0x9A, CHR 0xE0, CHR 0xB8, CHR 0x82, CHR 0xE0, CHR 0xB9, CHR 0x89,
     CHR 0xE0, CHR 0xB8, CHR 0xAD, CHR 0xE0, CHR 0xB8, CHR 0x9C, CHR 0xE0, CHR 0xB8,
     CHR 0xB4, CHR 0xE0, CHR 0xB8, CHR 0x94, CHR 0xE0, CHR 0xB8, CHR 0x9E, CHR 0xE0,
     CHR 0xB8, CHR 0xA5, CHR 0xE0, CHR 0xB8, CHR 0xB2, CHR 0xE0, CHR 0xB8, CHR 0x94,
     CHR 0xE0, CHR 0xB9, CHR 0x81, CHR 0xE0, CHR 0xB8, CHR 0xA5, CHR 0xE0, CHR 0xB8,
     CHR 0xB0, CHR 0xE0, CHR 0xB8, CHR 0xA5, CHR 0xE0, CHR 0xB8, CHR 0xAD, CHR 0xE0,
     CHR 0xB8, CHR 0x87, CHR 0xE0, CHR 0xB9, CHR 0x83, CHR 0xE0, CHR 0xB8, CHR 0xAB,
     CHR 0xE0, CHR 0xB8, CHR 0xA1, CHR 0xE0, CHR 0xB9, CHR 0x88]"

definition NO_TEXT_MESSAGE :: string where
  "NO_TEXT_MESSAGE =
     [CHR 0xE0, CHR 0xB9, CHR 0x84, CHR 0xE0, CHR 0xB8, CHR 0xA1, CHR 0xE0, CHR 0xB9,
     CHR 0x88, CHR 0xE0, CHR 0xB8, CHR 0xAA, CHR 0xE0, CHR 0xB8, CHR 0xB2, CHR 0xE0,
     CHR 0xB8, CHR 0xA1, CHR 0xE0, CHR 0xB8, CHR 0xB2, CHR 0xE0, CHR 0xB8, CHR 0xA3,
     CHR 0xE0, CHR 0xB8, CHR 0x96, CHR 0xE0, CHR 0xB8, CHR 0x94, CHR 0xE0, CHR 0xB8,
     CHR 0xB6, CHR 0xE0, CHR 0xB8, CHR 0x87, CHR 0xE0, CHR 0xB8, CHR 0x82, CHR 0xE0,
     CHR 0xB9, CHR 0x89, CHR 0xE0, CHR 0xB8, CHR 0xAD, CHR 0xE0, CHR 0xB8, CHR 0xA1,
     CHR 0xE0, CHR 0xB8, CHR 0xB9, CHR 0xE0, CHR 0xB8, CHR 0xA5, CHR 0xE0, CHR 0xB8,
     CHR 0x88, CHR 0xE0, CHR 0xB8, CHR 0xB2, CHR 0xE0, CHR 0xB8, CHR 0x81, CHR 0xE0,
     CHR 0xB9, CHR 0x84, CHR 0xE0, CHR 0xB8, CHR 0x9F, CHR 0xE0, CHR 0xB8, CHR 0xA5,
     CHR 0xE0, CHR 0xB9, CHR 0x8C, CHR 0xE0, CHR 0xB8, CHR 0x97, CHR 0xE0, CHR 0xB8,
     CHR 0xB5, CHR 0xE0, CHR 0xB9, CHR 0x88, CHR 0xE0, CHR 0xB8, CHR 0xAD, CHR 0xE0,
     CHR 0xB8, CHR 0xB1, CHR 0xE0, CHR 0xB8, CHR 0x9B, CHR 0xE0, CHR 0xB9, CHR 0x82,
     CHR 0xE0, CHR 0xB8, CHR 0xAB, CHR 0xE0, CHR 0xB8, CHR 0xA5, CHR 0xE0, CHR 0xB8,
     CHR 0x94, CHR 0xE0, CHR 0xB9, CHR 0x84, CHR 0xE0, CHR 0xB8, CHR 0x94, CHR 0xE0,
     CHR 0xB9, CHR 0x89] @ '' '' @ [CHR 0xE0, CHR 0xB8, CHR 0x81, CHR 0xE0, CHR 0xB8,
     CHR 0xA3, CHR 0xE0, CHR 0xB8, CHR 0xB8, CHR 0xE0, CHR 0xB8, CHR 0x93, CHR 0xE0,
     CHR 0xB8, CHR 0xB2, CHR 0xE0, CHR 0xB8, CHR 0x95, CHR 0xE0, CHR 0xB8, CHR 0xA3,
     CHR 0xE0, CHR 0xB8, CHR 0xA7, CHR 0xE0, CHR 0xB8, CHR 0x88, CHR 0xE0, CHR 0xB8,
     CHR 0xAA, CHR 0xE0, CHR 0xB8, CHR 0xAD, CHR 0xE0, CHR 0xB8, CHR 0x9A, CHR 0xE0,
     CHR 0xB9, CHR 0x84, CHR 0xE0, CHR 0xB8, CHR 0x9F, CHR 0xE0, CHR 0xB8, CHR 0xA5,
     CHR 0xE0, CHR 0xB9, CHR 0x8C, CHR 0xE0, CHR 0xB8, CHR 0xAD, CHR 0xE0, CHR 0xB8,
     CHR 0xB5, CHR 0xE0, CHR 0xB8, CHR 0x81, CHR 0xE0, CHR 0xB8, CHR 0x84, CHR 0xE0,
     CHR 0xB8, CHR 0xA3, CHR 0xE0, CHR 0xB8, CHR 0xB1, CHR 0xE0, CHR 0xB9, CHR 0x89,
     CHR 0xE0, CHR 0xB8, CHR 0x87]"

definition START_INFO_MESSAGE :: string where
  "START_INFO_MESSAGE =
     [CHR 0xE0, CHR 0xB8, CHR 0x81, CHR 0xE0, CHR 0xB8, CHR 0xA3, CHR 0xE0, CHR 0xB8,
     CHR 0xB8, CHR 0xE0, CHR 0xB8, CHR 0x93, CHR 0xE0, CHR 0xB8, CHR 0xB2, CHR 0xE0,
     CHR 0xB9, CHR 0x80, CHR 0xE0, CHR 0xB8, CHR 0xA5, CHR 0xE0, CHR 0xB8, CHR 0xB7,
     CHR 0xE0, CHR 0xB8, CHR 0xAD, CHR 0xE0, CHR 0xB8, CHR 0x81, CHR 0xE0, CHR 0xB8,
     CHR 0xAB, CHR 0xE0, CHR 0xB8, CHR 0xB1, CHR 0xE0, CHR 0xB8, CHR 0xA7, CHR 0xE0,
     CHR 0xB8, CHR 0x82, CHR 0xE0, CHR 0xB9, CHR 0x89, CHR 0xE0, CHR 0xB8, CHR 0xAD] @
     '', '' @ [CHR 0xE0, CHR 0xB8, CHR 0xAD, CHR 0xE0, CHR 0xB8, CHR 0xB1, CHR 0xE0,
     CHR 0xB8, CHR 0x9B, CHR 0xE0, CHR 0xB9, CHR 0x82, CHR 0xE0, CHR 0xB8, CHR 0xAB,
     CHR 0xE0, CHR 0xB8, CHR 0xA5, CHR 0xE0, CHR 0xB8, CHR 0x94, CHR 0xE0, CHR 0xB9,
     CHR 0x84, CHR 0xE0, CHR 0xB8, CHR 0x9F, CHR 0xE0, CHR 0xB8, CHR 0xA5, CHR 0xE0,
     CHR 0xB9, CHR 0x8C] @ '', '' @ [CHR 0xE0, CHR 0xB9, CHR 0x81, CHR 0xE0, CHR 0xB8,
     CHR 0xA5, CHR 0xE0, CHR 0xB8, CHR 0xB0, CHR 0xE0, CHR 0xB8, CHR 0x81, CHR 0xE0,
     CHR 0xB8, CHR 0x94, CHR 0xE0, CHR 0xB8, CHR 0x9B, CHR 0xE0, CHR 0xB8, CHR 0xB8,
     CHR 0xE0, CHR 0xB9, CHR 0x88, CHR 0xE0, CHR 0xB8, CHR 0xA1] @ '' '' @ [CHR 0x27,
     CHR 0xE0, CHR 0xB8, CHR 0xAA, CHR 0xE0, CHR 0xB8, CHR 0xA3, CHR 0xE0, CHR 0xB9,
     CHR 0x89, CHR 0xE0, CHR 0xB8, CHR 0xB2, CHR 0xE0, CHR 0xB8, CHR 0x87, CHR 0xE0,
     CHR 0xB8, CHR 0xA3, CHR 0xE0, CHR 0xB8, CHR 0xB2, CHR 0xE0, CHR 0xB8, CHR 0xA2,
     CHR 0xE0, CHR 0xB8, CHR 0x87, CHR 0xE0, CHR 0xB8, CHR 0xB2, CHR 0xE0, CHR 0xB8,
     CHR 0x99] @ '' SAR'' @ [CHR 0x27] @ '' '' @ [CHR 0xE0, CHR 0xB9, CHR 0x80, CHR 0xE0,
     CHR 0xB8, CHR 0x9E, CHR 0xE0, CHR 0xB8, CHR 0xB7, CHR 0xE0, CHR 0xB9, CHR 0x88,
     CHR 0xE0, CHR 0xB8, CHR 0xAD, CHR 0xE0, CHR 0xB9, CHR 0x80, CHR 0xE0, CHR 0xB8,
     CHR 0xA3, CHR 0xE0, CHR 0xB8, CHR 0xB4, CHR 0xE0, CHR 0xB9, CHR 0x88, CHR 0xE0,
     CHR 0xB8, CHR 0xA1, CHR 0xE0, CHR 0xB8, CHR 0x95, CHR 0xE0, CHR 0xB9, CHR 0x89,
     CHR 0xE0, CHR 0xB8, CHR 0x99]"

text \<open>
  One run of the script from \<open>if generate_button:\<close> on. The inputs are the widgets'
  values: whether the button was pressed, the selected option (\<open>None\<close> until one is
  selected), the uploaded files and the notes. \<open>report_output\<close> is the value kept in
  \<open>st.session_state\<close>; the run returns its new value and the events in order.
\<close>

definition generate_button_handler ::
  "runtime \<Rightarrow> string \<Rightarrow> string \<Rightarrow> bool \<Rightarrow> string option \<Rightarrow> uploaded_file list \<Rightarrow> string
     \<Rightarrow> string \<times> event list" where
  "generate_button_handler L GEMINI_API_KEY report_output generate_button selected_option_str
       uploaded_files additional_context =
     (if generate_button then
        (case selected_option_str of
           None \<Rightarrow> (report_output, [St_error SELECT_TOPIC_MESSAGE])
         | Some [] \<Rightarrow> (report_output, [St_error SELECT_TOPIC_MESSAGE])
         | Some sel \<Rightarrow>
             if uploaded_files = [] \<and> additional_context = [] then
               (report_output, [St_error NO_INPUT_MESSAGE])
             else
               (let ((context_data, files_ok), evs1) =
                      get_all_input_text L uploaded_files additional_context
                in if files_ok then
                     (let (generated_report, evs2) =
                            generate_sar_section L GEMINI_API_KEY sel context_data
                      in case generated_report of
                           Some (c # cs) \<Rightarrow> (c # cs, evs1 @ evs2)
                         | _ \<Rightarrow> ([], evs1 @ evs2 @ [St_error NO_REPORT_MESSAGE]))
                   else (report_output, evs1 @ [St_error NO_TEXT_MESSAGE])))
      else (report_output, []))"

definition run_script ::
  "runtime \<Rightarrow> string \<Rightarrow> string \<Rightarrow> bool \<Rightarrow> string option \<Rightarrow> uploaded_file list \<Rightarrow> string
     \<Rightarrow> string \<times> event list" where
  "run_script L GEMINI_API_KEY report_output generate_button selected_option_str
       uploaded_files additional_context =
     (let (report_output, evs) =
            generate_button_handler L GEMINI_API_KEY report_output generate_button
              selected_option_str uploaded_files additional_context
      in if report_output \<noteq> [] then (report_output, evs @ [St_markdown report_output])
         else (report_output, evs @ [St_info START_INFO_MESSAGE]))"

section \<open>Topic catalog\<close>

text \<open>
  \<open>SAR_ITEMS\<close>, the dictionary literal of the source with its entries in order (a Python
  dictionary keeps the order of insertion), the Thai labels as their UTF-8 bytes.
\<close>

definition SAR_ITEMS :: "(int \<times> string) list" where
  "SAR_ITEMS =
     [
      (1,
       ''I-1.1'' @ [CHR 0xE0, CHR 0xB8, CHR 0x81] @ ''(1)(2)(3) '' @ [CHR 0xE0, CHR 0xB8,
       CHR 0x81, CHR 0xE0, CHR 0xB8, CHR 0xB2, CHR 0xE0, CHR 0xB8, CHR 0xA3, CHR 0xE0,
       CHR 0xB8, CHR 0x8A, CHR 0xE0, CHR 0xB8, CHR 0xB5, CHR 0xE0, CHR 0xB9, CHR 0x89,
       CHR 0xE0, CHR 0xB8, CHR 0x99, CHR 0xE0, CHR 0xB8, CHR 0xB3, CHR 0xE0, CHR 0xB8,
       CHR 0xAD, CHR 0xE0, CHR 0xB8, CHR 0x87, CHR 0xE0, CHR 0xB8, CHR 0x84, CHR 0xE0,
       CHR 0xB9, CHR 0x8C, CHR 0xE0, CHR 0xB8, CHR 0x81, CHR 0xE0, CHR 0xB8, CHR 0xA3,
       CHR 0xE0, CHR 0xB9, CHR 0x82, CHR 0xE0, CHR 0xB8, CHR 0x94, CHR 0xE0, CHR 0xB8,
       CHR 0xA2, CHR 0xE0, CHR 0xB8, CHR 0x9C, CHR 0xE0, CHR 0xB8, CHR 0xB9, CHR 0xE0,
       CHR 0xB9, CHR 0x89, CHR 0xE0, CHR 0xB8, CHR 0x99, CHR 0xE0, CHR 0xB8, CHR 0xB3,
       CHR 0xE0, CHR 0xB8, CHR 0xA3, CHR 0xE0, CHR 0xB8, CHR 0xB0, CHR 0xE0, CHR 0xB8,
       CHR 0x94, CHR 0xE0, CHR 0xB8, CHR 0xB1, CHR 0xE0, CHR 0xB8, CHR 0x9A, CHR 0xE0,
       CHR 0xB8, CHR 0xAA, CHR 0xE0, CHR 0xB8, CHR 0xB9, CHR 0xE0, CHR 0xB8, CHR 0x87]),
      (2,
       ''I-1.1'' @ [CHR 0xE0, CHR 0xB8, CHR 0x82] @ '' '' @ [CHR 0xE0, CHR 0xB8, CHR 0x81,
       CHR 0xE0, CHR 0xB8, CHR 0xB2, CHR 0xE0, CHR 0xB8, CHR 0xA3, CHR 0xE0, CHR 0xB8,
       CHR 0xAA, CHR 0xE0, CHR 0xB8, CHR 0xB7, CHR 0xE0, CHR 0xB9, CHR 0x88, CHR 0xE0,
       CHR 0xB8, CHR 0xAD, CHR 0xE0, CHR 0xB8, CHR 0xAA, CHR 0xE0, CHR 0xB8, CHR 0xB2,
       CHR 0xE0, CHR 0xB8, CHR 0xA3] @ '' '' @ [CHR 0xE0, CHR 0xB8, CHR 0xAA, CHR 0xE0,
       CHR 0xB8, CHR 0xA3, CHR 0xE0, CHR 0xB9, CHR 0x89, CHR 0xE0, CHR 0xB8, CHR 0xB2,
       CHR 0xE0, CHR 0xB8, CHR 0x87, CHR 0xE0, CHR 0xB8, CHR 0x84, CHR 0xE0, CHR 0xB8,
       CHR 0xA7, CHR 0xE0, CHR 0xB8, CHR 0xB2, CHR 0xE0, CHR 0xB8, CHR 0xA1, CHR 0xE0,
       CHR 0xB8, CHR 0x9C, CHR 0xE0, CHR 0xB8, CHR 0xB9, CHR 0xE0, CHR 0xB8, CHR 0x81,
       CHR 0xE0, CHR 0xB8, CHR 0x9E, CHR 0xE0, CHR 0xB8, CHR 0xB1, CHR 0xE0, CHR 0xB8,
       CHR 0x99, CHR 0xE0, CHR 0xB9, CHR 0x82, CHR 0xE0, CHR 0xB8, CHR 0x94, CHR 0xE0,
       CHR 0xB8, CHR 0xA2, CHR 0xE0, CHR 0xB8, CHR 0x9C, CHR 0xE0, CHR 0xB8, CHR 0xB9,
       CHR 0xE0, CHR 0xB9, CHR 0x89, CHR 0xE0, CHR 0xB8, CHR 0x99, CHR 0xE0, CHR 0xB8,
       CHR 0xB3] @ ''**''),
      (3,
       ''I-1.1'' @ [CHR 0xE0, CHR 0xB8, CHR 0x84] @ ''(1)(2)(3) '' @ [CHR 0xE0, CHR 0xB8,
       CHR 0x81, CHR 0xE0, CHR 0xB8, CHR 0xB2, CHR 0xE0, CHR 0xB8, CHR 0xA3, CHR 0xE0,
       CHR 0xB8, CHR 0xAA, CHR 0xE0, CHR 0xB8, CHR 0xA3, CHR 0xE0, CHR 0xB9, CHR 0x89,
       CHR 0xE0, CHR 0xB8, CHR 0xB2, CHR 0xE0, CHR 0xB8, CHR 0x87, CHR 0xE0, CHR 0xB8,
       CHR 0xAA, CHR 0xE0, CHR 0xB8, CHR 0xB4, CHR 0xE0, CHR 0xB9, CHR 0x88, CHR 0xE0,
       CHR 0xB8, CHR 0x87, CHR 0xE0, CHR 0xB9, CHR 0x81, CHR 0xE0, CHR 0xB8, CHR 0xA7,
       CHR 0xE0, CHR 0xB8, CHR 0x94, CHR 0xE0, CHR 0xB8, CHR 0xA5, CHR 0xE0, CHR 0xB9,
       CHR 0x89, CHR 0xE0, CHR 0xB8, CHR 0xAD, CHR 0xE0, CHR 0xB8, CHR 0xA1, CHR 0xE0,
       CHR 0xB8, CHR 0x97, CHR 0xE0, CHR 0xB8, CHR 0xB5, CHR 0xE0, CHR 0xB9, CHR 0x88,
       CHR 0xE0, CHR 0xB9, CHR 0x80, CHR 0xE0, CHR 0xB8, CHR 0xAD, CHR 0xE0, CHR 0xB8,
       CHR 0xB7, CHR 0xE0, CHR 0xB9, CHR 0x89, CHR 0xE0, CHR 0xB8, CHR 0xAD, CHR 0xE0,
       CHR 0xB8, CHR 0x95, CHR 0xE0, CHR 0xB9, CHR 0x88, CHR 0xE0, CHR 0xB8, CHR 0xAD,
       CHR 0xE0, CHR 0xB8, CHR 0x81, CHR 0xE0, CHR 0xB8, CHR 0xB2, CHR 0xE0, CHR 0xB8,
       CHR 0xA3, CHR 0xE0, CHR 0xB8, CHR 0x9E, CHR 0xE0, CHR 0xB8, CHR 0xB1, CHR 0xE0,
       CHR 0xB8, CHR 0x92, CHR 0xE0, CHR 0xB8, CHR 0x99, CHR 0xE0, CHR 0xB8, CHR 0xB2,
       CHR 0xE0, CHR 0xB9, CHR 0x81, CHR 0xE0, CHR 0xB8, CHR 0xA5, CHR 0xE0, CHR 0xB8,
       CHR 0xB0, CHR 0xE0, CHR 0xB8, CHR 0x84, CHR 0xE0, CHR 0xB8, CHR 0xA7, CHR 0xE0,
       CHR 0xB8, CHR 0xB2, CHR 0xE0, CHR 0xB8, CHR 0xA1, CHR 0xE0, CHR 0xB8, CHR 0xAA,
       CHR 0xE0, CHR 0xB8, CHR 0xB3, CHR 0xE0, CHR 0xB9, CHR 0x80, CHR 0xE0, CHR 0xB8,
       CHR 0xA3, CHR 0xE0, CHR 0xB9, CHR 0x87, CHR 0xE0, CHR 0xB8, CHR 0x88, CHR 0xE0,
       CHR 0xB8, CHR 0x82, CHR 0xE0, CHR 0xB8, CHR 0xAD, CHR 0xE0, CHR 0xB8, CHR 0x87,
       CHR 0xE0, CHR 0xB8, CHR 0xAD, CHR 0xE0, CHR 0xB8, CHR 0x87, CHR 0xE0, CHR 0xB8,
       CHR 0x84, CHR 0xE0, CHR 0xB9, CHR 0x8C, CHR 0xE0, CHR 0xB8, CHR 0x81, CHR 0xE0,
       CHR 0xB8, CHR 0xA3] @ ''**''),
      (4,
       ''I-1.2'' @ [CHR 0xE0, CHR 0xB8, CHR 0x81] @ ''(1)(2) '' @ [CHR 0xE0, CHR 0xB8,
       CHR 0xA3, CHR 0xE0, CHR 0xB8, CHR 0xB0, CHR 0xE0, CHR 0xB8, CHR 0x9A, CHR 0xE0,
       CHR 0xB8, CHR 0x9A, CHR 0xE0, CHR 0xB8, CHR 0x81, CHR 0xE0, CHR 0xB8, CHR 0xB3,
       CHR 0xE0, CHR 0xB8, CHR 0x81, CHR 0xE0, CHR 0xB8, CHR 0xB1, CHR 0xE0, CHR 0xB8,
       CHR 0x9A, CHR 0xE0, CHR 0xB8, CHR 0x94, CHR 0xE0, CHR 0xB8, CHR 0xB9, CHR 0xE0,
       CHR 0xB9, CHR 0x81, CHR 0xE0, CHR 0xB8, CHR 0xA5, CHR 0xE0, CHR 0xB8, CHR 0x81,
       CHR 0xE0, CHR 0xB8, CHR 0xB4, CHR 0xE0, CHR 0xB8, CHR 0x88, CHR 0xE0, CHR 0xB8,
       CHR 0x81, CHR 0xE0, CHR 0xB8, CHR 0xB2, CHR 0xE0, CHR 0xB8, CHR 0xA3] @ '' '' @
       [CHR 0xE0, CHR 0xB8, CHR 0x81, CHR 0xE0, CHR 0xB8, CHR 0xB2, CHR 0xE0, CHR 0xB8,
       CHR 0xA3, CHR 0xE0, CHR 0xB8, CHR 0x9B, CHR 0xE0, CHR 0xB8, CHR 0xA3, CHR 0xE0,
       CHR 0xB8, CHR 0xB0, CHR 0xE0, CHR 0xB9, CHR 0x80, CHR 0xE0, CHR 0xB8, CHR 0xA1,
       CHR 0xE0, CHR 0xB8, CHR 0xB4, CHR 0xE0, CHR 0xB8, CHR 0x99, CHR 0xE0, CHR 0xB8,
       CHR 0x9C, CHR 0xE0, CHR 0xB8, CHR 0xB9, CHR 0xE0, CHR 0xB9, CHR 0x89, CHR 0xE0,
       CHR 0xB8, CHR 0x99, CHR 0xE0, CHR 0xB8, CHR 0xB3] @ ''/'' @ [CHR 0xE0, CHR 0xB8,
       CHR 0xA3, CHR 0xE0, CHR 0xB8, CHR 0xB0, CHR 0xE0, CHR 0xB8, CHR 0x9A, CHR 0xE0,
       CHR 0xB8, CHR 0x9A, CHR 0xE0, CHR 0xB8, CHR 0x81, CHR 0xE0, CHR 0xB8, CHR 0xB2,
       CHR 0xE0, CHR 0xB8, CHR 0xA3, CHR 0xE0, CHR 0xB8, CHR 0x99, CHR 0xE0, CHR 0xB8,
       CHR 0xB3]),
      (5,
       ''I-1.2'' @ [CHR 0xE0, CHR 0xB8, CHR 0x81] @ ''(3) '' @ [CHR 0xE0, CHR 0xB8,
       CHR 0xA3, CHR 0xE0, CHR 0xB8, CHR 0xB0, CHR 0xE0, CHR 0xB8, CHR 0x9A, CHR 0xE0,
       CHR 0xB8, CHR 0x9A, CHR 0xE0, CHR 0xB8, CHR 0x81, CHR 0xE0, CHR 0xB8, CHR 0xB3,
       CHR 0xE0, CHR 0xB8, CHR 0x81, CHR 0xE0, CHR 0xB8, CHR 0xB1, CHR 0xE0, CHR 0xB8,
       CHR 0x9A, CHR 0xE0, CHR 0xB8, CHR 0x94, CHR 0xE0, CHR 0xB8, CHR 0xB9, CHR 0xE0,
       CHR 0xB9, CHR 0x81, CHR 0xE0, CHR 0xB8, CHR 0xA5, CHR 0xE0, CHR 0xB8, CHR 0x97,
       CHR 0xE0, CHR 0xB8, CHR 0xB2, CHR 0xE0, CHR 0xB8, CHR 0x87, CHR 0xE0, CHR 0xB8,
       CHR 0x84, CHR 0xE0, CHR 0xB8, CHR 0xA5, CHR 0xE0, CHR 0xB8, CHR 0xB4, CHR 0xE0,
       CHR 0xB8, CHR 0x99, CHR 0xE0, CHR 0xB8, CHR 0xB4, CHR 0xE0, CHR 0xB8, CHR 0x81] @
       ''**''),
      (6,
       ''I-1.2'' @ [CHR 0xE0, CHR 0xB8, CHR 0x82] @ ''(1)(2)(3),'' @ [CHR 0xE0, CHR 0xB8,
       CHR 0x84] @ ''(1)(2) '' @ [CHR 0xE0, CHR 0xB8, CHR 0x81, CHR 0xE0, CHR 0xB8,
       CHR 0xB2, CHR 0xE0, CHR 0xB8, CHR 0xA3, CHR 0xE0, CHR 0xB8, CHR 0x9B, CHR 0xE0,
       CHR 0xB8, CHR 0x8F, CHR 0xE0, CHR 0xB8, CHR 0xB4, CHR 0xE0, CHR 0xB8, CHR 0x9A,
       CHR 0xE0, CHR 0xB8, CHR 0xB1, CHR 0xE0, CHR 0xB8, CHR 0x95, CHR 0xE0, CHR 0xB8,
       CHR 0xB4, CHR 0xE0, CHR 0xB8, CHR 0x95, CHR 0xE0, CHR 0xB8, CHR 0xB2, CHR 0xE0,
       CHR 0xB8, CHR 0xA1, CHR 0xE0, CHR 0xB8, CHR 0x81, CHR 0xE0, CHR 0xB8, CHR 0x8E,
       CHR 0xE0, CHR 0xB8, CHR 0xAB, CHR 0xE0, CHR 0xB8, CHR 0xA1, CHR 0xE0, CHR 0xB8,
       CHR 0xB2, CHR 0xE0, CHR 0xB8, CHR 0xA2] @ '' '' @ [CHR 0xE0, CHR 0xB8, CHR 0x81,
       CHR 0xE0, CHR 0xB8, CHR 0xB2, CHR 0xE0, CHR 0xB8, CHR 0xA3, CHR 0xE0, CHR 0xB8,
       CHR 0x97, CHR 0xE0, CHR 0xB8, CHR 0xB3, CHR 0xE0, CHR 0xB8, CHR 0x9B, CHR 0xE0,
       CHR 0xB8, CHR 0xA3, CHR 0xE0, CHR 0xB8, CHR 0xB0, CHR 0xE0, CHR 0xB9, CHR 0x82,
       CHR 0xE0, CHR 0xB8, CHR 0xA2, CHR 0xE0, CHR 0xB8, CHR 0x8A, CHR 0xE0, CHR 0xB8,
       CHR 0x99, CHR 0xE0, CHR 0xB9, CHR 0x8C, CHR 0xE0, CHR 0xB9, CHR 0x83, CHR 0xE0,
       CHR 0xB8, CHR 0xAB, CHR 0xE0, CHR 0xB9, CHR 0x89, CHR 0xE0, CHR 0xB8, CHR 0xAA,
       CHR 0xE0, CHR 0xB8, CHR 0xB1, CHR 0xE0, CHR 0xB8, CHR 0x87, CHR 0xE0, CHR 0xB8,
       CHR 0x84, CHR 0xE0, CHR 0xB8, CHR 0xA1, CHR 0xE0, CHR 0xB9, CHR 0x81, CHR 0xE0,
       CHR 0xB8, CHR 0xA5, CHR 0xE0, CHR 0xB8, CHR 0xB0, CHR 0xE0, CHR 0xB8, CHR 0x81,
       CHR 0xE0, CHR 0xB8, CHR 0xB2, CHR 0xE0, CHR 0xB8, CHR 0xA3, CHR 0xE0, CHR 0xB8,
       CHR 0x94, CHR 0xE0, CHR 0xB8, CHR 0xB3, CHR 0xE0, CHR 0xB9, CHR 0x80, CHR 0xE0,
       CHR 0xB8, CHR 0x99, CHR 0xE0, CHR 0xB8, CHR 0xB4, CHR 0xE0, CHR 0xB8, CHR 0x99,
       CHR 0xE0, CHR 0xB8, CHR 0x87, CHR 0xE0, CHR 0xB8, CHR 0xB2, CHR 0xE0, CHR 0xB8,
       CHR 0x99, CHR 0xE0, CHR 0xB8, CHR 0xAD, CHR 0xE0, CHR 0xB8, CHR 0xA2, CHR 0xE0,
       CHR 0xB9, CHR 0x88, CHR 0xE0, CHR 0xB8, CHR 0xB2, CHR 0xE0, CHR 0xB8, CHR 0x87,
       CHR 0xE0, CHR 0xB8, CHR 0xA1, CHR 0xE0, CHR 0xB8, CHR 0xB5, CHR 0xE0, CHR 0xB8,
       CHR 0x88, CHR 0xE0, CHR 0xB8, CHR 0xA3, CHR 0xE0, CHR 0xB8, CHR 0xB4, CHR 0xE0,
       CHR 0xB8, CHR 0xA2, CHR 0xE0, CHR 0xB8, CHR 0x98, CHR 0xE0, CHR 0xB8, CHR 0xA3,
       CHR 0xE0, CHR 0xB8, CHR 0xA3, CHR 0xE0, CHR 0xB8, CHR 0xA1]),
      (7,
       ''I-2.1'' @ [CHR 0xE0, CHR 0xB8, CHR 0x81] @ ''(1)(2)(3)(4) '' @ [CHR 0xE0, CHR 0xB8,
       CHR 0x81, CHR 0xE0, CHR 0xB8, CHR 0xA3, CHR 0xE0, CHR 0xB8, CHR 0xB0, CHR 0xE0,
       CHR 0xB8, CHR 0x9A, CHR 0xE0, CHR 0xB8, CHR 0xA7, CHR 0xE0, CHR 0xB8, CHR 0x99,
       CHR 0xE0, CHR 0xB8, CHR 0x81, CHR 0xE0, CHR 0xB8, CHR 0xB2, CHR 0xE0, CHR 0xB8,
       CHR 0xA3, CHR 0xE0, CHR 0xB8, CHR 0x88, CHR 0xE0, CHR 0xB8, CHR 0xB1, CHR 0xE0,
       CHR 0xB8, CHR 0x94, CHR 0xE0, CHR 0xB8, CHR 0x97, CHR 0xE0, CHR 0xB8, CHR 0xB3] @
       '' '' @ [CHR 0xE0, CHR 0xB8, CHR 0xA7, CHR 0xE0, CHR 0xB8, CHR 0xB2, CHR 0xE0,
       CHR 0xB8, CHR 0x87, CHR 0xE0, CHR 0xB9, CHR 0x81, CHR 0xE0, CHR 0xB8, CHR 0x9C,
       CHR 0xE0, CHR 0xB8, CHR 0x99, CHR 0xE0, CHR 0xB8, CHR 0x81, CHR 0xE0, CHR 0xB8,
       CHR 0xA5, CHR 0xE0, CHR 0xB8, CHR 0xA2, CHR 0xE0, CHR 0xB8, CHR 0xB8, CHR 0xE0,
       CHR 0xB8, CHR 0x97, CHR 0xE0, CHR 0xB8, CHR 0x98, CHR 0xE0, CHR 0xB9, CHR 0x8C,
       CHR 0xE0, CHR 0xB9, CHR 0x81, CHR 0xE0, CHR 0xB8, CHR 0xA5, CHR 0xE0, CHR 0xB8,
       CHR 0xB0, CHR 0xE0, CHR 0xB8, CHR 0x81, CHR 0xE0, CHR 0xB8, CHR 0xB2, CHR 0xE0,
       CHR 0xB8, CHR 0xA3, CHR 0xE0, CHR 0xB8, CHR 0xA7, CHR 0xE0, CHR 0xB8, CHR 0xB4,
       CHR 0xE0, CHR 0xB9, CHR 0x80, CHR 0xE0, CHR 0xB8, CHR 0x84, CHR 0xE0, CHR 0xB8,
       CHR 0xA3, CHR 0xE0, CHR 0xB8, CHR 0xB2, CHR 0xE0, CHR 0xB8, CHR 0xB0, CHR 0xE0,
       CHR 0xB8, CHR 0xAB, CHR 0xE0, CHR 0xB9, CHR 0x8C, CHR 0xE0, CHR 0xB8, CHR 0x82,
       CHR 0xE0, CHR 0xB9, CHR 0x89, CHR 0xE0, CHR 0xB8, CHR 0xAD, CHR 0xE0, CHR 0xB8,
       CHR 0xA1, CHR 0xE0, CHR 0xB8, CHR 0xB9, CHR 0xE0, CHR 0xB8, CHR 0xA5] @ '' **''),
      (8,
       ''I-2.1'' @ [CHR 0xE0, CHR 0xB8, CHR 0x82] @ ''(1)(2)(3) '' @ [CHR 0xE0, CHR 0xB8,
       CHR 0xA7, CHR 0xE0, CHR 0xB8, CHR 0xB1, CHR 0xE0, CHR 0xB8, CHR 0x95, CHR 0xE0,
       CHR 0xB8, CHR 0x96, CHR 0xE0, CHR 0xB8, CHR 0xB8, CHR 0xE0, CHR 0xB8, CHR 0x9B,
       CHR 0xE0, CHR 0xB8, CHR 0xA3, CHR 0xE0, CHR 0xB8, CHR 0xB0, CHR 0xE0, CHR 0xB8,
       CHR 0xAA, CHR 0xE0, CHR 0xB8, CHR 0x87, CHR 0xE0, CHR 0xB8, CHR 0x84, CHR 0xE0,
       CHR 0xB9, CHR 0x8C, CHR 0xE0, CHR 0xB9, CHR 0x80, CHR 0xE0, CHR 0xB8, CHR 0x8A,
       CHR 0xE0, CHR 0xB8, CHR 0xB4, CHR 0xE0, CHR 0xB8, CHR 0x87, CHR 0xE0, CHR 0xB8,
       CHR 0x81, CHR 0xE0, CHR 0xB8, CHR 0xA5, CHR 0xE0, CHR 0xB8, CHR 0xA2, CHR 0xE0,
       CHR 0xB8, CHR 0xB8, CHR 0xE0, CHR 0xB8, CHR 0x97, CHR 0xE0, CHR 0xB8, CHR 0x98,
       CHR 0xE0, CHR 0xB9, CHR 0x8C] @ ''...''),
      (9,
       ''I-2.2'' @ [CHR 0xE0, CHR 0xB8, CHR 0x81] @ ''(1)(2)(3)(4) '' @ [CHR 0xE0, CHR 0xB8,
       CHR 0x81, CHR 0xE0, CHR 0xB8, CHR 0xB2, CHR 0xE0, CHR 0xB8, CHR 0xA3, CHR 0xE0,
       CHR 0xB8, CHR 0x88, CHR 0xE0, CHR 0xB8, CHR 0xB1, CHR 0xE0, CHR 0xB8, CHR 0x94,
       CHR 0xE0, CHR 0xB8, CHR 0x97, CHR 0xE0, CHR 0xB8, CHR 0xB3, CHR 0xE0, CHR 0xB9,
       CHR 0x81, CHR 0xE0, CHR 0xB8, CHR 0x9C, CHR 0xE0, CHR 0xB8, CHR 0x99, CHR 0xE0,
       CHR 0xB8, CHR 0x9B, CHR 0xE0, CHR 0xB8, CHR 0x8F, CHR 0xE0, CHR 0xB8, CHR 0xB4,
       CHR 0xE0, CHR 0xB8, CHR 0x9A, CHR 0xE0, CHR 0xB8, CHR 0xB1, CHR 0xE0, CHR 0xB8,
       CHR 0x95, CHR 0xE0, CHR 0xB8, CHR 0xB4, CHR 0xE0, CHR 0xB8, CHR 0x81, CHR 0xE0,
       CHR 0xB8, CHR 0xB2, CHR 0xE0, CHR 0xB8, CHR 0xA3] @ ''...''),
      (10,
       ''I-2.2'' @ [CHR 0xE0, CHR 0xB8, CHR 0x81] @ ''(5), '' @ [CHR 0xE0, CHR 0xB8,
       CHR 0x82] @ '' '' @ [CHR 0xE0, CHR 0xB8, CHR 0x81, CHR 0xE0, CHR 0xB8, CHR 0xB2,
       CHR 0xE0, CHR 0xB8, CHR 0xA3, CHR 0xE0, CHR 0xB8, CHR 0x81, CHR 0xE0, CHR 0xB8,
       CHR 0xB3, CHR 0xE0, CHR 0xB8, CHR 0xAB, CHR 0xE0, CHR 0xB8, CHR 0x99, CHR 0xE0,
       CHR 0xB8, CHR 0x94, CHR 0xE0, CHR 0xB8, CHR 0x95, CHR 0xE0, CHR 0xB8, CHR 0xB1,
       CHR 0xE0, CHR 0xB8, CHR 0xA7, CHR 0xE0, CHR 0xB8, CHR 0x8A, CHR 0xE0, CHR 0xB8,
       CHR 0xB5, CHR 0xE0, CHR 0xB9, CHR 0x89, CHR 0xE0, CHR 0xB8, CHR 0xA7, CHR 0xE0,
       CHR 0xB8, CHR 0xB1, CHR 0xE0, CHR 0xB8, CHR 0x94] @ ''...''),
      (11,
       ''I-3.1'' @ [CHR 0xE0, CHR 0xB8, CHR 0x81] @ ''(1) '' @ [CHR 0xE0, CHR 0xB8,
       CHR 0x81, CHR 0xE0, CHR 0xB8, CHR 0xB2, CHR 0xE0, CHR 0xB8, CHR 0xA3, CHR 0xE0,
       CHR 0xB8, CHR 0xA3, CHR 0xE0, CHR 0xB8, CHR 0xB1, CHR 0xE0, CHR 0xB8, CHR 0x9A,
       CHR 0xE0, CHR 0xB8, CHR 0x9F, CHR 0xE0, CHR 0xB8, CHR 0xB1, CHR 0xE0, CHR 0xB8,
       CHR 0x87] @ ''/'' @ [CHR 0xE0, CHR 0xB9, CHR 0x80, CHR 0xE0, CHR 0xB8, CHR 0xA3,
       CHR 0xE0, CHR 0xB8, CHR 0xB5, CHR 0xE0, CHR 0xB8, CHR 0xA2, CHR 0xE0, CHR 0xB8,
       CHR 0x99, CHR 0xE0, CHR 0xB8, CHR 0xA3, CHR 0xE0, CHR 0xB8, CHR 0xB9, CHR 0xE0,
       CHR 0xB9, CHR 0x89, CHR 0xE0, CHR 0xB8, CHR 0x84, CHR 0xE0, CHR 0xB8, CHR 0xA7,
       CHR 0xE0, CHR 0xB8, CHR 0xB2, CHR 0xE0, CHR 0xB8, CHR 0xA1, CHR 0xE0, CHR 0xB8,
       CHR 0x95, CHR 0xE0, CHR 0xB9, CHR 0x89, CHR 0xE0, CHR 0xB8, CHR 0xAD, CHR 0xE0,
       CHR 0xB8, CHR 0x87, CHR 0xE0, CHR 0xB8, CHR 0x81, CHR 0xE0, CHR 0xB8, CHR 0xB2,
       CHR 0xE0, CHR 0xB8, CHR 0xA3] @ ''...''),
      (82,
       ''III-6 '' @ [CHR 0xE0, CHR 0xB8, CHR 0x81, CHR 0xE0, CHR 0xB8, CHR 0xB2, CHR 0xE0,
       CHR 0xB8, CHR 0xA3, CHR 0xE0, CHR 0xB8, CHR 0x94, CHR 0xE0, CHR 0xB8, CHR 0xB9,
       CHR 0xE0, CHR 0xB9, CHR 0x81, CHR 0xE0, CHR 0xB8, CHR 0xA5, CHR 0xE0, CHR 0xB8,
       CHR 0x95, CHR 0xE0, CHR 0xB9, CHR 0x88, CHR 0xE0, CHR 0xB8, CHR 0xAD, CHR 0xE0,
       CHR 0xB9, CHR 0x80, CHR 0xE0, CHR 0xB8, CHR 0x99, CHR 0xE0, CHR 0xB8, CHR 0xB7,
       CHR 0xE0, CHR 0xB9, CHR 0x88, CHR 0xE0, CHR 0xB8, CHR 0xAD, CHR 0xE0, CHR 0xB8,
       CHR 0x87] @ ''**'')
     ]"

definition str_of_int :: "int \<Rightarrow> string" where
  "str_of_int i = (if i < 0 then ''-'' @ str_of_nat (nat (- i)) else str_of_nat (nat i))"

text \<open>The options of the topic selector: \<open>f"{key}. {value}"\<close> for each item.\<close>

definition sar_options :: "string list" where
  "sar_options = map (\<lambda>(key, value). str_of_int key @ ''. '' @ value) SAR_ITEMS"

section \<open>Data frames as objects\<close>

text \<open>
  To speak about the caller's \<open>DataFrame\<close>, the objects are kept in a store: a list of
  values, an object's address being its index. \<open>df.copy()\<close>, \<open>df.head(n)\<close> and
  \<open>df.iloc[:, :n]\<close> each return a new object; none of them writes to an existing one.
\<close>

type_synonym store = "dataframe list"

definition new_object :: "store \<Rightarrow> dataframe \<Rightarrow> store \<times> nat" where
  "new_object s v = (s @ [v], length s)"

definition df_copy :: "store \<Rightarrow> nat \<Rightarrow> store \<times> nat" where
  "df_copy s df = new_object s (s ! df)"

definition df_head :: "store \<Rightarrow> nat \<Rightarrow> int \<Rightarrow> store \<times> nat" where
  "df_head s df n = new_object s (head (s ! df) n)"

definition df_iloc_cols :: "store \<Rightarrow> nat \<Rightarrow> int \<Rightarrow> store \<times> nat" where
  "df_iloc_cols s df n = new_object s (iloc_cols (s ! df) n)"

text \<open>\<open>_limit_df\<close> on references: the local variable \<open>df\<close> is rebound at each assignment.\<close>

definition limit_df_store :: "store \<Rightarrow> nat \<Rightarrow> int \<Rightarrow> int \<Rightarrow> store \<times> nat" where
  "limit_df_store s df max_rows max_cols =
     (let (s, df) = df_copy s df;
          (s, df) = (if int (length (rows (s ! df))) > max_rows then df_head s df max_rows
                     else (s, df));
          (s, df) = (if int (length (columns (s ! df))) > max_cols
                     then df_iloc_cols s df max_cols
                     else (s, df))
      in (s, df))"

section \<open>The shape walk without a termination argument\<close>

text \<open>
  \<open>_walk_shapes\<close> once more, as the recursion is written and with no measure given:
  \<open>None\<close> stands for a walk that does not return.
\<close>

partial_function (option) walk_shapes_rec :: "shape list \<Rightarrow> string list \<Rightarrow> string list option" where
  "walk_shapes_rec shs out_parts =
     (case shs of
        [] \<Rightarrow> Some out_parts
      | sh # rest \<Rightarrow>
          (let out1 = (case text_frame sh of
                         Some txt \<Rightarrow>
                           if strip txt \<noteq> [] then out_parts @ [strip txt] else out_parts
                       | None \<Rightarrow> out_parts);
               out2 = (case table sh of
                         Some tbl \<Rightarrow> out1 @ [extract_text_from_table tbl]
                       | None \<Rightarrow> out1)
           in Option.bind
                (case shapes sh of
                   Some children \<Rightarrow> walk_shapes_rec children out2
                 | None \<Rightarrow> Some out2)
                (\<lambda>out3. walk_shapes_rec rest out3)))"

section \<open>The specification's words\<close>

text \<open>The block of the user notes.\<close>

definition spec_notes_block :: "string \<Rightarrow> string" where
  "spec_notes_block notes =
     ''--- START OF ADDITIONAL USER NOTES ---\<newline>\<newline>'' @ notes
       @ ''\<newline>\<newline>--- END OF ADDITIONAL USER NOTES ---\<newline>\<newline>''"

text \<open>The text extracted from one artifact, and its block between the markers.\<close>

definition spec_extracted_text :: "runtime \<Rightarrow> uploaded_file \<Rightarrow> string" where
  "spec_extracted_text L file = (case fst (extract_by_type L file) of Inr t \<Rightarrow> t | Inl e \<Rightarrow> [])"

definition spec_file_block :: "runtime \<Rightarrow> uploaded_file \<Rightarrow> string" where
  "spec_file_block L file =
     ''--- START OF FILE: '' @ name file @ '' ---\<newline>\<newline>''
       @ spec_extracted_text L file
       @ ''\<newline>\<newline>--- END OF FILE: '' @ name file @ '' ---\<newline>\<newline>''"

text \<open>
  The dispatch as the specification words it: the suffix of the file name is
  inspected first, and only when no suffix matches the media type is searched.
\<close>

definition spec_extract_by_type :: "runtime \<Rightarrow> uploaded_file \<Rightarrow> (exn + string) \<times> event list" where
  "spec_extract_by_type L file =
     (let name = lower (name file);
          mime = lower (ftype file)
      in if suffix ''.pdf'' name then extract_text_from_pdf L file
         else if suffix ''.docx'' name then extract_text_from_docx L file
         else if suffix ''.xlsx'' name \<or> suffix ''.xlsm'' name then extract_text_from_excel L file
         else if suffix ''.xls'' name then extract_text_from_excel L file
         else if suffix ''.csv'' name then extract_text_from_csv L file
         else if suffix ''.pptx'' name then extract_text_from_pptx L file
         else if sublist ''pdf'' mime then extract_text_from_pdf L file
         else if sublist ''wordprocessingml'' mime then extract_text_from_docx L file
         else if sublist ''officedocument.spreadsheetml'' mime then extract_text_from_excel L file
         else if sublist ''application/vnd.ms-excel'' mime then extract_text_from_excel L file
         else if sublist ''text/csv'' mime then extract_text_from_csv L file
         else if sublist ''officedocument.presentationml.presentation'' mime then
           extract_text_from_pptx L file
         else
           (Inr [], [St_warning (''Unsupported file type: '' @ uploaded_file.name file @ ''. Skipping.'')]))"

text \<open>
  The chain of tests of \<open>get_all_input_text\<close> as a table, in the order of the source:
  the test on the lower-cased name, the test on the lower-cased media type, and the
  extractor that is called.
\<close>

definition dispatch_rules ::
  "((string \<Rightarrow> bool) \<times> (string \<Rightarrow> bool)
     \<times> (runtime \<Rightarrow> uploaded_file \<Rightarrow> (exn + string) \<times> event list)) list" where
  "dispatch_rules =
     [(suffix ''.pdf'', sublist ''pdf'', extract_text_from_pdf),
      (suffix ''.docx'', sublist ''wordprocessingml'', extract_text_from_docx),
      (\<lambda>n. suffix ''.xlsx'' n \<or> suffix ''.xlsm'' n, sublist ''officedocument.spreadsheetml'',
       extract_text_from_excel),
      (suffix ''.xls'', \<lambda>m. m = ''application/vnd.ms-excel'', extract_text_from_excel),
      (suffix ''.csv'', sublist ''text/csv'', extract_text_from_csv),
      (suffix ''.pptx'', sublist ''officedocument.presentationml.presentation'',
       extract_text_from_pptx)]"

definition rule_matches ::
  "uploaded_file \<Rightarrow> (string \<Rightarrow> bool) \<times> (string \<Rightarrow> bool)
     \<times> (runtime \<Rightarrow> uploaded_file \<Rightarrow> (exn + string) \<times> event list) \<Rightarrow> bool" where
  "rule_matches file rule =
     (case rule of (name_test, mime_test, h) \<Rightarrow>
        name_test (lower (name file)) \<or> mime_test (lower (ftype file)))"

text \<open>Whether a run reached the generation client.\<close>

fun is_generation_event :: "event \<Rightarrow> bool" where
  "is_generation_event (Genai_Client k) = True"
| "is_generation_event (Generate_content m p) = True"
| "is_generation_event _ = False"

definition calls_generation :: "event list \<Rightarrow> bool" where
  "calls_generation evs = list_ex is_generation_event evs"

section \<open>Concrete inputs\<close>

text \<open>
  A table of 400 rows and 60 columns, a slide with one table and no notes, and a
  runtime to evaluate the program on: a PDF is one page holding the file's bytes and
  a document one paragraph holding them (an empty file is rejected), every CSV file
  is the table, a workbook opens when an engine is named and has one sheet holding the
  table, and every deck is the slide.
\<close>

definition example_df :: dataframe where
  "example_df =
     \<lparr>columns = map (\<lambda>i. ''c'' @ str_of_nat i) [0..<60],
      rows = replicate 400 (replicate 60 (Some ''x''))\<rparr>"

definition example_slide :: slide where
  "example_slide =
     \<lparr>slide_shapes = [Shape None (Some [ [''a'', ''b''], [''c'', ''d''] ]) None],
      notes_slide = None\<rparr>"

definition example_to_csv :: "dataframe \<Rightarrow> string" where
  "example_to_csv df =
     concat (map (\<lambda>line. line @ ''\<newline>'')
       (join '','' (columns df)
        # map (\<lambda>r. join '','' (map (\<lambda>c. case c of None \<Rightarrow> [] | Some v \<Rightarrow> v) r)) (rows df)))"

definition example_runtime :: runtime where
  "example_runtime =
     \<lparr>PdfReader = (\<lambda>file. if read file = [] then Inl (Exception ''Cannot read an empty file'')
                          else Inr [Inr (read file)]),
      Document = (\<lambda>data. if data = [] then Inl (Exception ''Package not found'')
                         else Inr [data]),
      read_csv = (\<lambda>file. Inr example_df),
      to_csv = example_to_csv,
      ExcelFile = (\<lambda>file engine.
                     case engine of
                       None \<Rightarrow> Inl (Exception ''Excel file format cannot be determined'')
                     | Some e \<Rightarrow> Inr [(''Sheet1'', Inr example_df)]),
      Presentation = (\<lambda>data. Inr [example_slide]),
      Path_suffix = (\<lambda>n. dropWhile (\<lambda>c. c \<noteq> CHR ''.'') n),
      substitute = (\<lambda>sar_item knowledge_base context_data.
                      sar_item @ knowledge_base @ context_data),
      genai_Client = (\<lambda>api_key. Inr ()),
      generate_content = (\<lambda>api_key model prompt.
                            Inr \<lparr>resp_text = Some ''report'', output_text = None\<rparr>)\<rparr>"

definition example_file :: "string \<Rightarrow> string \<Rightarrow> uploaded_file" where
  "example_file n t = \<lparr>name = n, ftype = t, content = ''hello'', pos = 0\<rparr>"

definition empty_file :: "string \<Rightarrow> string \<Rightarrow> uploaded_file" where
  "empty_file n t = \<lparr>name = n, ftype = t, content = [], pos = 0\<rparr>"

section \<open>Lemmas about the extractors and the aggregation loop\<close>

lemma extract_text_from_pdf_total:
  "fst (extract_text_from_pdf L file) =
     Inr (case extract_text_from_pdf_try L file of Inr t \<Rightarrow> t | Inl e \<Rightarrow> [])"
  by (simp add: extract_text_from_pdf_def split: sum.splits)

lemma extract_text_from_docx_total:
  "fst (extract_text_from_docx L file) =
     Inr (case extract_text_from_docx_try L file of Inr t \<Rightarrow> t | Inl e \<Rightarrow> [])"
  by (simp add: extract_text_from_docx_def split: sum.splits)

lemma extract_text_from_excel_total:
  "fst (extract_text_from_excel L file) =
     Inr (case extract_text_from_excel_try L file of Inr t \<Rightarrow> t | Inl e \<Rightarrow> [])"
  by (simp add: extract_text_from_excel_def split: sum.splits exn.splits)

lemma extract_text_from_csv_total:
  "fst (extract_text_from_csv L file) =
     Inr (case extract_text_from_csv_try L file of Inr t \<Rightarrow> t | Inl e \<Rightarrow> [])"
  by (simp add: extract_text_from_csv_def split: sum.splits)

lemma extract_text_from_pptx_total:
  "fst (extract_text_from_pptx L file) =
     Inr (case extract_text_from_pptx_try L file of Inr t \<Rightarrow> t | Inl e \<Rightarrow> [])"
  by (simp add: extract_text_from_pptx_def split: sum.splits)

lemma extract_by_type_total: "\<exists>t. fst (extract_by_type L file) = Inr t"
  by (simp add: extract_by_type_def Let_def extract_text_from_pdf_total
      extract_text_from_docx_total extract_text_from_excel_total extract_text_from_csv_total
      extract_text_from_pptx_total)

text \<open>One iteration appends exactly the block of the file.\<close>

lemma file_step_block:
  "file_step L file full_text = (full_text @ spec_file_block L file, snd (extract_by_type L file))"
proof -
  obtain t where t: "fst (extract_by_type L file) = Inr t"
    using extract_by_type_total by blast
  then obtain evs where "extract_by_type L file = (Inr t, evs)"
    by (cases "extract_by_type L file") simp
  then show ?thesis
    by (simp add: file_step_def spec_file_block_def spec_extracted_text_def)
qed

lemma files_loop_blocks:
  "files_loop L files full_text =
     (full_text @ concat (map (spec_file_block L) files),
      concat (map (\<lambda>file. snd (extract_by_type L file)) files))"
  by (induction files arbitrary: full_text) (simp_all add: file_step_block)

text \<open>The stream position a file arrives with does not matter: each extractor seeks to 0.\<close>

lemma seek_0_seek: "seek 0 (seek n file) = seek 0 file"
  by (simp add: seek_def)

lemma name_seek: "name (seek n file) = name file"
  by (simp add: seek_def)

lemma ftype_seek: "ftype (seek n file) = ftype file"
  by (simp add: seek_def)

lemma extract_text_from_pdf_seek:
  "extract_text_from_pdf L (seek n file) = extract_text_from_pdf L file"
  by (simp add: extract_text_from_pdf_def extract_text_from_pdf_try_def seek_0_seek name_seek
      cong: sum.case_cong)

lemma extract_text_from_docx_seek:
  "extract_text_from_docx L (seek n file) = extract_text_from_docx L file"
  by (simp add: extract_text_from_docx_def extract_text_from_docx_try_def seek_0_seek name_seek
      cong: sum.case_cong)

lemma extract_text_from_excel_seek:
  "extract_text_from_excel L (seek n file) = extract_text_from_excel L file"
  by (simp add: extract_text_from_excel_def extract_text_from_excel_try_def seek_0_seek name_seek
      cong: sum.case_cong exn.case_cong)

lemma extract_text_from_csv_seek:
  "extract_text_from_csv L (seek n file) = extract_text_from_csv L file"
  by (simp add: extract_text_from_csv_def extract_text_from_csv_try_def seek_0_seek name_seek
      cong: sum.case_cong)

lemma extract_text_from_pptx_seek:
  "extract_text_from_pptx L (seek n file) = extract_text_from_pptx L file"
  by (simp add: extract_text_from_pptx_def extract_text_from_pptx_try_def seek_0_seek name_seek
      cong: sum.case_cong)

lemma extract_by_type_seek: "extract_by_type L (seek n file) = extract_by_type L file"
  by (simp add: extract_by_type_def Let_def name_seek ftype_seek extract_text_from_pdf_seek
      extract_text_from_docx_seek extract_text_from_excel_seek extract_text_from_csv_seek
      extract_text_from_pptx_seek cong: if_cong)

lemma spec_file_block_seek: "spec_file_block L (seek n file) = spec_file_block L file"
  by (simp add: spec_file_block_def spec_extracted_text_def extract_by_type_seek name_seek)

text \<open>The recursion of the shape walk, unfolded once.\<close>

lemma walk_shapes_rec_Nil: "walk_shapes_rec [] out_parts = Some out_parts"
  by (subst walk_shapes_rec.simps) simp

lemma walk_shapes_rec_Cons:
  "walk_shapes_rec (Shape tf tb ch # rest) out_parts =
     (let out1 = (case tf of
                    Some txt \<Rightarrow> if strip txt \<noteq> [] then out_parts @ [strip txt] else out_parts
                  | None \<Rightarrow> out_parts);
          out2 = (case tb of
                    Some tbl \<Rightarrow> out1 @ [extract_text_from_table tbl]
                  | None \<Rightarrow> out1)
      in Option.bind
           (case ch of Some children \<Rightarrow> walk_shapes_rec children out2 | None \<Rightarrow> Some out2)
           (\<lambda>out3. walk_shapes_rec rest out3))"
  by (subst walk_shapes_rec.simps) simp

text \<open>With a topic, no file and a note, the run does reach the generation client.\<close>

lemma generation_reached_example:
  "calls_generation
     (snd (run_script example_runtime ''key'' [] True (Some ''1. topic'') [] ''note''))"
  by (simp add: generate_button_handler_def run_script_def calls_generation_def
      get_all_input_text_def generate_sar_section_def generate_sar_section_try_def
      example_runtime_def or_else_def)

text \<open>The table that \<open>_limit_df\<close> returns, for caps that are not negative.\<close>

lemma slice_to_nonneg: "0 \<le> n \<Longrightarrow> slice_to n xs = take (nat n) xs"
  by (simp add: slice_to_def)

lemma limit_df_rows_columns:
  assumes "0 \<le> max_rows" and "0 \<le> max_cols" and "wf_df df"
  shows "rows (limit_df df max_rows max_cols) =
           map (take (nat max_cols)) (take (nat max_rows) (rows df))"
    and "columns (limit_df df max_rows max_cols) = take (nat max_cols) (columns df)"
proof -
  have w: "\<And>r. r \<in> set (rows df) \<Longrightarrow> length r = length (columns df)"
    using assms(3) by (simp add: wf_df_def list_all_iff)
  have t: "\<And>r. r \<in> set (take (nat max_rows) (rows df)) \<Longrightarrow> length r = length (columns df)"
    using w by (blast dest: in_set_takeD)
  show "rows (limit_df df max_rows max_cols) =
          map (take (nat max_cols)) (take (nat max_rows) (rows df))"
    using assms(1,2) w t
    by (auto simp: limit_df_def head_def iloc_cols_def slice_to_nonneg Let_def map_idI)
  show "columns (limit_df df max_rows max_cols) = take (nat max_cols) (columns df)"
    using assms(1,2)
    by (auto simp: limit_df_def head_def iloc_cols_def slice_to_nonneg Let_def)
qed

text \<open>The loop over the sheets, when every sheet parses.\<close>

lemma excel_sheets_loop_tables:
  "excel_sheets_loop L (map (\<lambda>(sheet_name, df). (sheet_name, Inr df)) tables) parts =
     Inr (parts @ map (\<lambda>(sheet_name, df).
                         ''[Sheet: '' @ sheet_name @ '']\<newline>''
                           @ to_csv L (limit_df df MAX_ROWS MAX_COLS) @ ''\<newline>'') tables)"
  by (induction tables arbitrary: parts) (auto simp: Let_def)

lemma str_of_nat_1: "str_of_nat (Suc 0) = ''1''"
  by code_simp

text \<open>The \<open>try\<close> block of the Excel extractor, with the engine named.\<close>

lemma extract_text_from_excel_try_engine:
  "extract_text_from_excel_try L file =
     (case ExcelFile L (seek 0 file) (excel_engine L file) of
        Inl e \<Rightarrow> Inl e
      | Inr xls \<Rightarrow>
          (case excel_sheets_loop L xls [] of
             Inl e \<Rightarrow> Inl e
           | Inr parts \<Rightarrow> Inr (join ''\<newline>'' parts)))"
  by (simp add: extract_text_from_excel_try_def excel_engine_def Let_def)

text \<open>The cells of the example table have no white space to remove.\<close>

lemma strip_cells:
  "strip ''a'' = ''a''" "strip ''b'' = ''b''" "strip ''c'' = ''c''" "strip ''d'' = ''d''"
  by code_simp+

text \<open>
  The chain of tests of the aggregator, read off the table: the first rule that holds
  of the file gives the extractor, and a file of which no rule holds gets a warning and
  a block without text, after which the loop goes on.
\<close>

lemma extract_by_type_rules:
  "extract_by_type L file =
     (case find (rule_matches file) dispatch_rules of
        Some (name_test, mime_test, h) \<Rightarrow> h L file
      | None \<Rightarrow>
          (Inr [], [St_warning (''Unsupported file type: '' @ name file @ ''. Skipping.'')]))"
  by (simp add: extract_by_type_def dispatch_rules_def rule_matches_def Let_def)

lemma unsupported_file_skipped:
  "find (rule_matches file) dispatch_rules = None \<Longrightarrow>
     files_loop L (file # files) full_text =
       (fst (files_loop L files
               (full_text @ ''--- START OF FILE: '' @ name file @ '' ---\<newline>\<newline>''
                  @ ''\<newline>\<newline>--- END OF FILE: '' @ name file @ '' ---\<newline>\<newline>'')),
        St_warning (''Unsupported file type: '' @ name file @ ''. Skipping.'')
          # snd (files_loop L files
               (full_text @ ''--- START OF FILE: '' @ name file @ '' ---\<newline>\<newline>''
                  @ ''\<newline>\<newline>--- END OF FILE: '' @ name file @ '' ---\<newline>\<newline>'')))"
  by (simp add: extract_by_type_rules file_step_def split: prod.splits)

section \<open>The claims\<close>

text \<open>
  C1. For every call of \<open>get_all_input_text\<close>, the flag \<open>ok\<close> of the result is false if
  and only if the list of artifacts is empty and the notes are empty. With no artifact
  and non-empty notes, \<open>ok\<close> is true and the text is exactly the block of the user notes
  between its START/END OF ADDITIONAL USER NOTES markers (and nothing is shown).
\<close>

theorem get_all_input_text_ok:
  "(\<not> snd (fst (get_all_input_text L uploaded_files additional_context))
      \<longleftrightarrow> uploaded_files = [] \<and> additional_context = [])
   \<and> (additional_context \<noteq> [] \<longrightarrow>
        get_all_input_text L [] additional_context
          = ((spec_notes_block additional_context, True), []))"
  by (simp add: get_all_input_text_def spec_notes_block_def Let_def split: prod.splits)

theorem get_all_input_text_ok_witness:
  "\<not> snd (fst (get_all_input_text example_runtime [] []))
   \<and> snd (fst (get_all_input_text example_runtime [] ''note''))
   \<and> snd (fst (get_all_input_text example_runtime
                  [example_file ''a.pdf'' ''application/pdf''] []))
   \<and> ''note'' \<noteq> []
   \<and> get_all_input_text example_runtime [] ''note'' =
        ((''--- START OF ADDITIONAL USER NOTES ---\<newline>\<newline>note\<newline>\<newline>--- END OF ADDITIONAL USER NOTES ---\<newline>\<newline>'',
          True), [])"
  using get_all_input_text_ok [of example_runtime "[]" "[]"]
    get_all_input_text_ok [of example_runtime "[]" "''note''"]
    get_all_input_text_ok [of example_runtime "[example_file ''a.pdf'' ''application/pdf'']" "[]"]
  by (simp add: spec_notes_block_def)

text \<open>
  C2. For every tabular input the table that the extractor writes out has at most
  \<open>MAX_ROWS\<close> (300) rows and at most \<open>MAX_COLS\<close> (50) columns, whatever the size of the
  source, and it is made of exactly the leading rows and the leading columns. A
  \<open>DataFrame\<close> is rectangular (\<open>wf_df\<close>). The text of the CSV extractor is the
  serialisation of the limited table of the file. When the workbook opens with the
  engine the extractor picks and its sheets parse, the text of the Excel extractor is
  made, sheet by sheet in workbook order, of the serialisation of the limited table of
  the sheet under the tag of the sheet.
\<close>

theorem tabular_limits:
  "wf_df df \<Longrightarrow>
     length (rows (limit_df df MAX_ROWS MAX_COLS)) \<le> 300
     \<and> length (columns (limit_df df MAX_ROWS MAX_COLS)) \<le> 50
     \<and> list_all (\<lambda>r. length r \<le> 50) (rows (limit_df df MAX_ROWS MAX_COLS))
     \<and> rows (limit_df df MAX_ROWS MAX_COLS) = map (take 50) (take 300 (rows df))
     \<and> columns (limit_df df MAX_ROWS MAX_COLS) = take 50 (columns df)
     \<and> (read_csv L (seek 0 file) = Inr df \<longrightarrow>
          fst (extract_text_from_csv L file) = Inr (to_csv L (limit_df df MAX_ROWS MAX_COLS)))
     \<and> (ExcelFile L (seek 0 file) (excel_engine L file)
            = Inr (map (\<lambda>(sheet_name, df). (sheet_name, Inr df)) tables) \<longrightarrow>
          fst (extract_text_from_excel L file) =
            Inr (join ''\<newline>''
                   (map (\<lambda>(sheet_name, df).
                           ''[Sheet: '' @ sheet_name @ '']\<newline>''
                             @ to_csv L (limit_df df MAX_ROWS MAX_COLS) @ ''\<newline>'') tables)))"
proof -
  assume wf: "wf_df df"
  have r: "rows (limit_df df MAX_ROWS MAX_COLS) = map (take 50) (take 300 (rows df))"
    using limit_df_rows_columns(1) [of MAX_ROWS MAX_COLS df] wf
    by (simp add: MAX_ROWS_def MAX_COLS_def)
  have c: "columns (limit_df df MAX_ROWS MAX_COLS) = take 50 (columns df)"
    using limit_df_rows_columns(2) [of MAX_ROWS MAX_COLS df] wf
    by (simp add: MAX_ROWS_def MAX_COLS_def)
  have csv: "read_csv L (seek 0 file) = Inr df \<longrightarrow>
          fst (extract_text_from_csv L file) = Inr (to_csv L (limit_df df MAX_ROWS MAX_COLS))"
    by (simp add: extract_text_from_csv_def extract_text_from_csv_try_def)
  have xls: "ExcelFile L (seek 0 file) (excel_engine L file)
            = Inr (map (\<lambda>(sheet_name, df). (sheet_name, Inr df)) tables) \<longrightarrow>
          fst (extract_text_from_excel L file) =
            Inr (join ''\<newline>''
                   (map (\<lambda>(sheet_name, df).
                           ''[Sheet: '' @ sheet_name @ '']\<newline>''
                             @ to_csv L (limit_df df MAX_ROWS MAX_COLS) @ ''\<newline>'') tables))"
    by (simp add: extract_text_from_excel_def extract_text_from_excel_try_engine
        excel_sheets_loop_tables)
  show ?thesis
    using csv xls by (simp add: r c list_all_iff)
qed

theorem tabular_limits_witness:
  "wf_df example_df
   \<and> length (rows example_df) = 400 \<and> length (columns example_df) = 60
   \<and> length (rows (limit_df example_df MAX_ROWS MAX_COLS)) = 300
   \<and> length (columns (limit_df example_df MAX_ROWS MAX_COLS)) = 50
   \<and> rows (limit_df example_df MAX_ROWS MAX_COLS) = replicate 300 (replicate 50 (Some ''x''))
   \<and> fst (extract_text_from_csv example_runtime (example_file ''t.csv'' ''text/csv'')) =
       Inr (example_to_csv (limit_df example_df MAX_ROWS MAX_COLS))
   \<and> excel_engine example_runtime (example_file ''t.xlsx'' []) = Some ''openpyxl''
   \<and> ExcelFile example_runtime (seek 0 (example_file ''t.xlsx'' [])) (Some ''openpyxl'') =
       Inr [(''Sheet1'', Inr example_df)]
   \<and> fst (extract_text_from_excel example_runtime (example_file ''t.xlsx'' [])) =
       Inr (''[Sheet: Sheet1]\<newline>'' @ example_to_csv (limit_df example_df MAX_ROWS MAX_COLS)
              @ ''\<newline>'')"
proof -
  let ?csv = "example_file ''t.csv'' ''text/csv''"
  let ?xlsx = "example_file ''t.xlsx'' []"
  have wf: "wf_df example_df"
    by (simp add: wf_df_def example_df_def list_all_iff)
  have n: "length (rows example_df) = 400" "length (columns example_df) = 60"
    by (simp_all add: example_df_def)
  have e: "excel_engine example_runtime ?xlsx = Some ''openpyxl''"
    by (simp add: excel_engine_def example_runtime_def example_file_def lower_def
        lower_char_def)
  have x: "ExcelFile example_runtime (seek 0 ?xlsx) (Some ''openpyxl'') =
      Inr [(''Sheet1'', Inr example_df)]"
    by (simp add: example_runtime_def)
  have c: "read_csv example_runtime (seek 0 ?csv) = Inr example_df"
    by (simp add: example_runtime_def)
  have t: "to_csv example_runtime = example_to_csv"
    by (simp add: example_runtime_def)
  note limits = tabular_limits [OF wf, of example_runtime ?csv "[]"]
    and sheets = tabular_limits [OF wf, of example_runtime ?xlsx "[(''Sheet1'', example_df)]"]
  have r: "rows (limit_df example_df MAX_ROWS MAX_COLS) = replicate 300 (replicate 50 (Some ''x''))"
    using limits by (simp add: example_df_def)
  have l: "length (rows (limit_df example_df MAX_ROWS MAX_COLS)) = 300"
    "length (columns (limit_df example_df MAX_ROWS MAX_COLS)) = 50"
    using limits n by simp_all
  have csv: "fst (extract_text_from_csv example_runtime ?csv) =
      Inr (example_to_csv (limit_df example_df MAX_ROWS MAX_COLS))"
    using limits c by (simp add: t)
  have xls: "fst (extract_text_from_excel example_runtime ?xlsx) =
      Inr (''[Sheet: Sheet1]\<newline>'' @ example_to_csv (limit_df example_df MAX_ROWS MAX_COLS)
             @ ''\<newline>'')"
    using sheets by (simp add: e x t)
  show ?thesis
    by (intro conjI wf n r l csv e x xls)
qed

text \<open>
  C3. No format extractor (PDF, DOCX, Excel, CSV, PPTX) raises to its caller, whatever
  the libraries do with the bytes: the result is always a returned text, which is the
  text of the \<open>try\<close> block when it completes and the empty string when anything in it
  raises. So the loop of the aggregator goes on: an iteration appends the block of
  its file and nothing else.
\<close>

theorem extractors_never_raise:
  "fst (extract_text_from_pdf L file) =
     Inr (case extract_text_from_pdf_try L file of Inr t \<Rightarrow> t | Inl e \<Rightarrow> [])
   \<and> fst (extract_text_from_docx L file) =
     Inr (case extract_text_from_docx_try L file of Inr t \<Rightarrow> t | Inl e \<Rightarrow> [])
   \<and> fst (extract_text_from_excel L file) =
     Inr (case extract_text_from_excel_try L file of Inr t \<Rightarrow> t | Inl e \<Rightarrow> [])
   \<and> fst (extract_text_from_csv L file) =
     Inr (case extract_text_from_csv_try L file of Inr t \<Rightarrow> t | Inl e \<Rightarrow> [])
   \<and> fst (extract_text_from_pptx L file) =
     Inr (case extract_text_from_pptx_try L file of Inr t \<Rightarrow> t | Inl e \<Rightarrow> [])
   \<and> fst (files_loop L (file # files) full_text) =
     fst (files_loop L files (full_text @ spec_file_block L file))"
  by (simp add: extract_text_from_pdf_total extract_text_from_docx_total
      extract_text_from_excel_total extract_text_from_csv_total extract_text_from_pptx_total
      file_step_block split: prod.splits)

theorem extractors_never_raise_witness:
  "extract_text_from_pdf_try example_runtime (empty_file ''e.pdf'' ''application/pdf'') =
     Inl (Exception ''Cannot read an empty file'')
   \<and> extract_text_from_pdf example_runtime (empty_file ''e.pdf'' ''application/pdf'') =
       (Inr [], [St_error ''Error reading PDF file e.pdf: Cannot read an empty file''])
   \<and> fst (files_loop example_runtime
             [empty_file ''e.pdf'' ''application/pdf'', example_file ''a.pdf'' ''application/pdf'']
             []) =
       ''--- START OF FILE: e.pdf ---\<newline>\<newline>\<newline>\<newline>--- END OF FILE: e.pdf ---\<newline>\<newline>--- START OF FILE: a.pdf ---\<newline>\<newline>hello\<newline>\<newline>\<newline>--- END OF FILE: a.pdf ---\<newline>\<newline>''"
proof -
  have t: "extract_text_from_pdf_try example_runtime (empty_file ''e.pdf'' ''application/pdf'') =
      Inl (Exception ''Cannot read an empty file'')"
    by (simp add: extract_text_from_pdf_try_def example_runtime_def empty_file_def seek_def
        read_def)
  have e: "snd (extract_text_from_pdf example_runtime (empty_file ''e.pdf'' ''application/pdf'')) =
      [St_error ''Error reading PDF file e.pdf: Cannot read an empty file'']"
    by (simp add: extract_text_from_pdf_def t) (simp add: empty_file_def)
  have b: "spec_file_block example_runtime (empty_file ''e.pdf'' ''application/pdf'') =
      ''--- START OF FILE: e.pdf ---\<newline>\<newline>\<newline>\<newline>--- END OF FILE: e.pdf ---\<newline>\<newline>''"
    by code_simp
  have r: "fst (files_loop example_runtime [example_file ''a.pdf'' ''application/pdf'']
      ''--- START OF FILE: e.pdf ---\<newline>\<newline>\<newline>\<newline>--- END OF FILE: e.pdf ---\<newline>\<newline>'') =
      ''--- START OF FILE: e.pdf ---\<newline>\<newline>\<newline>\<newline>--- END OF FILE: e.pdf ---\<newline>\<newline>--- START OF FILE: a.pdf ---\<newline>\<newline>hello\<newline>\<newline>\<newline>--- END OF FILE: a.pdf ---\<newline>\<newline>''"
    by code_simp
  show ?thesis
    using extractors_never_raise [of example_runtime "empty_file ''e.pdf'' ''application/pdf''"
        "[example_file ''a.pdf'' ''application/pdf'']" "[]"] t e b r
    by (simp add: prod_eq_iff)
qed

text \<open>
  C4. A request with a selected topic, no uploaded artifact and empty notes is
  rejected by the validation: the handler shows the validation message, leaves the
  stored report as it is, and the whole run contains no call of the generation client.
\<close>

theorem empty_request_rejected:
  "generate_button_handler L GEMINI_API_KEY report_output True (Some (c # cs)) [] []
     = (report_output, [St_error NO_INPUT_MESSAGE])
   \<and> \<not> calls_generation
         (snd (run_script L GEMINI_API_KEY report_output True (Some (c # cs)) [] []))"
  by (simp add: generate_button_handler_def run_script_def calls_generation_def)

text \<open>
  C5. For every non-empty sequence of uploaded artifacts the aggregated text is the
  concatenation, in upload order, of one block per artifact, the artifact's extracted
  text between the markers START OF FILE: name and END OF FILE: name, followed, when
  the notes are not empty, by the one block of the user notes. The text is built anew
  at each call: it starts empty, and it does not depend on the stream positions that
  an earlier reading left in the files.
\<close>

theorem aggregated_text:
  "uploaded_files \<noteq> [] \<Longrightarrow>
     fst (get_all_input_text L uploaded_files additional_context) =
       (concat (map (spec_file_block L) uploaded_files)
          @ (if additional_context \<noteq> [] then spec_notes_block additional_context else []),
        True)
     \<and> get_all_input_text L (map (\<lambda>file. seek (p file) file) uploaded_files) additional_context
         = get_all_input_text L uploaded_files additional_context"
  by (simp add: get_all_input_text_def files_loop_blocks spec_notes_block_def o_def
      spec_file_block_seek extract_by_type_seek)

theorem aggregated_text_witness:
  "[example_file ''a.pdf'' ''application/pdf'', example_file ''b.txt'' ''text/plain''] \<noteq> []
   \<and> fst (get_all_input_text example_runtime
             [example_file ''a.pdf'' ''application/pdf'', example_file ''b.txt'' ''text/plain'']
             ''n'') =
       (''--- START OF FILE: a.pdf ---\<newline>\<newline>hello\<newline>\<newline>\<newline>--- END OF FILE: a.pdf ---\<newline>\<newline>--- START OF FILE: b.txt ---\<newline>\<newline>\<newline>\<newline>--- END OF FILE: b.txt ---\<newline>\<newline>--- START OF ADDITIONAL USER NOTES ---\<newline>\<newline>n\<newline>\<newline>--- END OF ADDITIONAL USER NOTES ---\<newline>\<newline>'',
        True)
   \<and> get_all_input_text example_runtime
         (map (\<lambda>file. seek 3 file)
            [example_file ''a.pdf'' ''application/pdf'', example_file ''b.txt'' ''text/plain''])
         ''n'' =
       get_all_input_text example_runtime
         [example_file ''a.pdf'' ''application/pdf'', example_file ''b.txt'' ''text/plain'']
         ''n''"
proof -
  have b1: "spec_file_block example_runtime (example_file ''a.pdf'' ''application/pdf'') =
      ''--- START OF FILE: a.pdf ---\<newline>\<newline>hello\<newline>\<newline>\<newline>--- END OF FILE: a.pdf ---\<newline>\<newline>''"
    by code_simp
  have b2: "spec_file_block example_runtime (example_file ''b.txt'' ''text/plain'') =
      ''--- START OF FILE: b.txt ---\<newline>\<newline>\<newline>\<newline>--- END OF FILE: b.txt ---\<newline>\<newline>''"
    by code_simp
  show ?thesis
    using aggregated_text [of "[example_file ''a.pdf'' ''application/pdf'',
        example_file ''b.txt'' ''text/plain'']" example_runtime "''n''" "\<lambda>file. 3"]
    by (simp add: b1 b2 spec_notes_block_def)
qed

text \<open>
  C6. The claim is that the extractor is chosen by the suffix of the file name first
  and by the media type only when no suffix matches, and that an artifact matching
  neither is skipped with a warning while the batch continues. The code tests, kind
  by kind, the suffix or the media type, so the media type test of an earlier kind
  comes before the suffix test of a later kind. A file \<open>data.csv\<close> that arrives with the
  media type \<open>application/vnd.ms-excel\<close> is given to the Excel extractor by the XLS
  test, not to the CSV extractor that its suffix names; the Excel extractor finds no
  engine for the suffix, fails to open the file and returns the empty text, so the
  table of the file is lost.
\<close>

theorem dispatch_csv_media_type_excel:
  "extract_by_type example_runtime (example_file ''data.csv'' ''application/vnd.ms-excel'')
     = extract_text_from_excel example_runtime
         (example_file ''data.csv'' ''application/vnd.ms-excel'')
   \<and> extract_by_type example_runtime (example_file ''data.csv'' ''application/vnd.ms-excel'')
     = (Inr [],
        [St_error
           ''Error reading Excel file data.csv: Excel file format cannot be determined''])
   \<and> spec_extract_by_type example_runtime
         (example_file ''data.csv'' ''application/vnd.ms-excel'')
     = extract_text_from_csv example_runtime
         (example_file ''data.csv'' ''application/vnd.ms-excel'')
   \<and> spec_extract_by_type example_runtime
         (example_file ''data.csv'' ''application/vnd.ms-excel'')
     = (Inr (example_to_csv (limit_df example_df MAX_ROWS MAX_COLS)), [])
   \<and> extract_by_type example_runtime (example_file ''data.csv'' ''application/vnd.ms-excel'')
     \<noteq> spec_extract_by_type example_runtime
         (example_file ''data.csv'' ''application/vnd.ms-excel'')"
proof -
  let ?f = "example_file ''data.csv'' ''application/vnd.ms-excel''"
  have n: "lower (name ?f) = ''data.csv''" and m: "lower (ftype ?f) = ''application/vnd.ms-excel''"
    by (simp_all add: example_file_def lower_def lower_char_def)
  have code: "extract_by_type example_runtime ?f = extract_text_from_excel example_runtime ?f"
    by (simp add: extract_by_type_def n m Let_def suffix_to_prefix sublist_code(3))
  have spec: "spec_extract_by_type example_runtime ?f = extract_text_from_csv example_runtime ?f"
    by (simp add: spec_extract_by_type_def n m Let_def suffix_to_prefix)
  have e: "excel_engine example_runtime ?f = None"
    by (simp add: excel_engine_def example_runtime_def example_file_def lower_def
        lower_char_def)
  have xls: "extract_text_from_excel example_runtime ?f =
      (Inr [],
       [St_error ''Error reading Excel file data.csv: Excel file format cannot be determined''])"
    by (simp add: extract_text_from_excel_def extract_text_from_excel_try_engine e)
      (simp add: example_runtime_def example_file_def)
  have csv: "extract_text_from_csv example_runtime ?f =
      (Inr (example_to_csv (limit_df example_df MAX_ROWS MAX_COLS)), [])"
    by (simp add: extract_text_from_csv_def extract_text_from_csv_try_def example_runtime_def)
  show ?thesis
    by (simp add: code spec xls csv)
qed

text \<open>
  C7. The claim is that the topic catalog has exactly the keys 1 to 82 and that the
  selector offers 82 entries, as the selector's label "(1-82)" and the comment in the
  dictionary say. The dictionary of the source has the twelve keys 1 to 11 and 82: the
  entries 12 to 81 are missing, and the selector offers twelve options.
\<close>

theorem topic_catalog_entries:
  "map fst SAR_ITEMS = [1, 2, 3, 4, 5, 6, 7, 8, 9, 10, 11, 82]
   \<and> length sar_options = 12
   \<and> map_of SAR_ITEMS 12 = None"
  by (simp add: SAR_ITEMS_def sar_options_def)

text \<open>
  C8. For a deck of one slide that holds a single table with the rows a, b and c, d and
  has no speaker notes, the text of the presentation extractor is the tag [Slide 1]
  followed by the lines a,b and c,d, each on its own line, and it has no [Notes]
  section. For any table the walk appends the rows joined by new lines, the cells of a
  row trimmed and joined by a comma.
\<close>

theorem pptx_table_slide:
  "Presentation L (read (seek 0 file)) =
     Inr [\<lparr>slide_shapes = [Shape None (Some [ [''a'', ''b''], [''c'', ''d''] ]) None],
           notes_slide = None\<rparr>] \<Longrightarrow>
   extract_text_from_pptx L file = (Inr ''[Slide 1]\<newline>a,b\<newline>c,d'', [])
   \<and> (\<forall>t. fst (extract_text_from_pptx L file) = Inr t \<longrightarrow> \<not> sublist ''[Notes]'' t)
   \<and> walk_shapes [Shape None (Some tbl) None] out_parts =
       out_parts @ [join ''\<newline>'' (map (\<lambda>r. join '','' (map strip r)) tbl)]"
proof -
  assume deck: "Presentation L (read (seek 0 file)) =
     Inr [\<lparr>slide_shapes = [Shape None (Some [ [''a'', ''b''], [''c'', ''d''] ]) None],
           notes_slide = None\<rparr>]"
  have out: "extract_text_from_pptx L file = (Inr ''[Slide 1]\<newline>a,b\<newline>c,d'', [])"
    using deck
    by (simp add: extract_text_from_pptx_def extract_text_from_pptx_try_def str_of_nat_1
        extract_text_from_table_def strip_cells)
  have no_notes: "\<not> sublist ''[Notes]'' ''[Slide 1]\<newline>a,b\<newline>c,d''"
    by code_simp
  show ?thesis
    using no_notes by (simp add: out extract_text_from_table_def)
qed

theorem pptx_table_slide_witness:
  "Presentation example_runtime (read (seek 0 (example_file ''deck.pptx'' []))) =
     Inr [\<lparr>slide_shapes = [Shape None (Some [ [''a'', ''b''], [''c'', ''d''] ]) None],
           notes_slide = None\<rparr>]
   \<and> extract_text_from_pptx example_runtime (example_file ''deck.pptx'' []) =
       (Inr ''[Slide 1]\<newline>a,b\<newline>c,d'', [])"
proof -
  have deck: "Presentation example_runtime (read (seek 0 (example_file ''deck.pptx'' []))) =
     Inr [\<lparr>slide_shapes = [Shape None (Some [ [''a'', ''b''], [''c'', ''d''] ]) None],
           notes_slide = None\<rparr>]"
    by (simp add: example_runtime_def example_slide_def)
  show ?thesis
    using deck pptx_table_slide [OF deck] by simp
qed

text \<open>
  C9. \<open>_limit_df\<close> never mutates its argument. With the data frames as objects in a
  store: after the call every object that existed before, the caller's among them,
  has the value it had; the result is another object than the argument, and its value
  is the limited table.
\<close>

theorem limit_df_store_frame:
  "df < length s \<Longrightarrow>
     (case limit_df_store s df max_rows max_cols of
        (s', df') \<Rightarrow>
          take (length s) s' = s \<and> s' ! df = s ! df \<and> df' \<noteq> df \<and> df' < length s'
          \<and> s' ! df' = limit_df (s ! df) max_rows max_cols)"
  by (auto simp: limit_df_store_def df_copy_def df_head_def df_iloc_cols_def new_object_def
      limit_df_def Let_def nth_append split: prod.splits if_splits)

theorem limit_df_store_frame_witness:
  "(0::nat) < length [example_df]
   \<and> fst (limit_df_store [example_df] 0 MAX_ROWS MAX_COLS) ! 0 = example_df
   \<and> snd (limit_df_store [example_df] 0 MAX_ROWS MAX_COLS) \<noteq> 0
   \<and> length (rows (fst (limit_df_store [example_df] 0 MAX_ROWS MAX_COLS) ! 0)) = 400"
  using limit_df_store_frame [of 0 "[example_df]" MAX_ROWS MAX_COLS]
  by (simp add: example_df_def split: prod.splits)

text \<open>
  C10. The recursive shape walk \<open>_walk_shapes\<close> terminates on every finite tree of
  shapes, nested groups included: the recursion as it is written, with no termination
  argument built in, returns a value for every list of shapes, the one the
  structurally recursive \<open>walk_shapes\<close> computes.
\<close>

theorem walk_shapes_terminates:
  "walk_shapes_rec shs out_parts = Some (walk_shapes shs out_parts)"
proof (induction shs out_parts rule: walk_shapes.induct)
  case (1 out_parts)
  show ?case by (simp add: walk_shapes_rec_Nil)
next
  case (2 tf tb ch rest out_parts)
  define out1 where
    "out1 = (case tf of
               Some txt \<Rightarrow> if strip txt \<noteq> [] then out_parts @ [strip txt] else out_parts
             | None \<Rightarrow> out_parts)"
  define out2 where
    "out2 = (case tb of Some tbl \<Rightarrow> out1 @ [extract_text_from_table tbl] | None \<Rightarrow> out1)"
  define out3 where
    "out3 = (case ch of Some children \<Rightarrow> walk_shapes children out2 | None \<Rightarrow> out2)"
  have children:
    "(case ch of Some children \<Rightarrow> walk_shapes_rec children out2 | None \<Rightarrow> Some out2) = Some out3"
  proof (cases ch)
    case None
    then show ?thesis by (simp add: out3_def)
  next
    case (Some children)
    with "2.IH"(1) [OF out1_def out2_def Some] show ?thesis by (simp add: out3_def)
  qed
  have rest: "walk_shapes_rec rest out3 = Some (walk_shapes rest out3)"
    by (rule "2.IH"(2) [OF out1_def out2_def out3_def])
  have "walk_shapes_rec (Shape tf tb ch # rest) out_parts =
          Option.bind
            (case ch of Some children \<Rightarrow> walk_shapes_rec children out2 | None \<Rightarrow> Some out2)
            (\<lambda>out3. walk_shapes_rec rest out3)"
    unfolding out1_def out2_def by (simp add: walk_shapes_rec_Cons Let_def)
  also have "\<dots> = Some (walk_shapes rest out3)"
    by (simp add: children rest)
  also have "walk_shapes rest out3 = walk_shapes (Shape tf tb ch # rest) out_parts"
    unfolding out1_def out2_def out3_def by (simp add: Let_def)
  finally show ?case .
qed

end
